theory Spec2Isabelle
  imports Main "HOL-Library.Sublist"
begin

section \<open>Strings\<close>


definition upper_letters :: string where
  "upper_letters = ''ABCDEFGHIJKLMNOPQRSTUVWXYZ''"

definition lower_letters :: string where
  "lower_letters = ''abcdefghijklmnopqrstuvwxyz''"

definition lower_char :: "char \<Rightarrow> char" where
  "lower_char c = (case map_of (zip upper_letters lower_letters) c of
                     Some d \<Rightarrow> d | None \<Rightarrow> c)"

definition strings_ToLower :: "string \<Rightarrow> string" where
  "strings_ToLower s = map lower_char s"

definition newline :: char where
  "newline = CHR 0x0A"

definition is_space :: "char \<Rightarrow> bool" where
  "is_space c = (c = CHR 0x09 \<or> c = CHR 0x0A \<or> c = CHR 0x0B \<or> c = CHR 0x0C
                 \<or> c = CHR 0x0D \<or> c = CHR '' '')"

definition strings_TrimSpace :: "string \<Rightarrow> string" where
  "strings_TrimSpace s = rev (dropWhile is_space (rev (dropWhile is_space s)))"

primrec strings_Contains :: "string \<Rightarrow> string \<Rightarrow> bool" where
  "strings_Contains [] sub = (sub = [])"
| "strings_Contains (c # cs) sub = (prefix sub (c # cs) \<or> strings_Contains cs sub)"

definition strings_HasPrefix :: "string \<Rightarrow> string \<Rightarrow> bool" where
  "strings_HasPrefix s p = prefix p s"

definition strings_TrimPrefix :: "string \<Rightarrow> string \<Rightarrow> string" where
  "strings_TrimPrefix s p = (if strings_HasPrefix s p then drop (length p) s else s)"

text \<open>\<open>strings_Cut s sep\<close> cuts \<open>s\<close> around the first occurrence of \<open>sep\<close>.\<close>

primrec strings_Cut :: "string \<Rightarrow> string \<Rightarrow> (string \<times> string) option" where
  "strings_Cut [] sep = (if sep = [] then Some ([], []) else None)"
| "strings_Cut (c # cs) sep =
     (if prefix sep (c # cs) then Some ([], drop (length sep) (c # cs))
      else (case strings_Cut cs sep of
              None \<Rightarrow> None
            | Some (before, after) \<Rightarrow> Some (c # before, after)))"

text \<open>\<open>strings.Split\<close>; an empty separator explodes the string into its characters.\<close>

function strings_Split :: "string \<Rightarrow> string \<Rightarrow> string list" where
  "strings_Split s sep =
     (if sep = [] then map (\<lambda>c. [c]) s
      else (case strings_Cut s sep of
              None \<Rightarrow> [s]
            | Some (before, after) \<Rightarrow> before # strings_Split after sep))"
  by pat_completeness auto
termination
proof (relation "measure (\<lambda>(s, sep). length s)")
  show "wf (measure (\<lambda>(s, sep). length s))"
    by simp
next
  fix s sep :: string and cut before after
  assume sep: "sep \<noteq> []" and cut: "strings_Cut s sep = Some cut" "(before, after) = cut"
  have shorter: "strings_Cut t sep = Some (b, a) \<Longrightarrow> length a < length t" for t b a
  proof (induction t arbitrary: b)
    case Nil
    with sep show ?case by simp
  next
    case (Cons c cs)
    show ?case
    proof (cases "prefix sep (c # cs)")
      case True
      with Cons.prems sep show ?thesis by auto
    next
      case False
      with Cons.prems obtain b' where "strings_Cut cs sep = Some (b', a)"
        by (auto split: option.splits)
      with Cons.IH show ?thesis by fastforce
    qed
  qed
  from cut have "strings_Cut s sep = Some (before, after)"
    by simp
  then show "((after, sep), (s, sep)) \<in> measure (\<lambda>(s, sep). length s)"
    by (simp add: shorter)
qed

declare strings_Split.simps [simp del]

text \<open>\<open>strings.SplitN(s, sep, 2)\<close>: at most two parts, the second one unsplit.\<close>

definition strings_SplitN2 :: "string \<Rightarrow> string \<Rightarrow> string list" where
  "strings_SplitN2 s sep =
     (case strings_Cut s sep of None \<Rightarrow> [s] | Some (before, after) \<Rightarrow> [before, after])"

section \<open>Regular expressions\<close>

text \<open>
  Go's \<^verbatim>\<open>regexp\<close> package finds the leftmost match and, among the matches that start
  there, the one a backtracking search finds first. A pattern is modelled as a matcher
  in continuation-passing style: it consumes a prefix of the remaining input, records
  its capture groups, and hands over to the continuation; when the continuation fails,
  the matcher tries its next alternative.
\<close>

type_synonym re_state = "string \<times> string list"
type_synonym re_cont = "re_state \<Rightarrow> re_state option"
type_synonym regex = "re_cont \<Rightarrow> re_cont"

definition re_lit :: "string \<Rightarrow> regex" where
  "re_lit w k st = (case st of (s, caps) \<Rightarrow>
     if prefix w s then k (drop (length w) s, caps) else None)"

text \<open>A literal under the flag \<^verbatim>\<open>(?i)\<close>.\<close>

definition re_ilit :: "string \<Rightarrow> regex" where
  "re_ilit w k st = (case st of (s, caps) \<Rightarrow>
     if strings_ToLower (take (length w) s) = strings_ToLower w
     then k (drop (length w) s, caps) else None)"

definition re_alt :: "regex \<Rightarrow> regex \<Rightarrow> regex" where
  "re_alt p q k st = (case p k st of Some r \<Rightarrow> Some r | None \<Rightarrow> q k st)"

text \<open>An optional group \<^verbatim>\<open>(?:p)?\<close>, greedy: with \<open>p\<close> first, then without.\<close>

definition re_opt :: "regex \<Rightarrow> regex" where
  "re_opt p k st = (case p k st of Some r \<Rightarrow> Some r | None \<Rightarrow> k st)"

primrec first_some :: "('a \<Rightarrow> 'b option) \<Rightarrow> 'a list \<Rightarrow> 'b option" where
  "first_some f [] = None"
| "first_some f (x # xs) = (case f x of Some r \<Rightarrow> Some r | None \<Rightarrow> first_some f xs)"

text \<open>
  \<open>re_many greedy cls m\<close> is a repetition of the character class \<open>cls\<close>, at least \<open>m\<close>
  times: \<^verbatim>\<open>c*\<close> and \<^verbatim>\<open>c+\<close> take the longest run first, \<^verbatim>\<open>c*?\<close> the shortest.
\<close>

definition re_many :: "bool \<Rightarrow> (char \<Rightarrow> bool) \<Rightarrow> nat \<Rightarrow> regex" where
  "re_many greedy cls m k st = (case st of (s, caps) \<Rightarrow>
     let n = length (takeWhile cls s);
         counts = (if greedy then rev [m ..< Suc n] else [m ..< Suc n])
     in first_some (\<lambda>i. k (drop i s, caps)) counts)"

text \<open>A capture group: the text its body consumed is appended to the captures.\<close>

definition re_group :: "regex \<Rightarrow> regex" where
  "re_group p k st = (case st of (s, caps) \<Rightarrow>
     p (\<lambda>(s', caps'). k (s', caps' @ [take (length s - length s') s])) (s, caps))"

text \<open>
  \<open>re_find\<close> is \<^verbatim>\<open>FindStringSubmatch\<close>: the match at the leftmost position where the
  pattern matches, as the whole match followed by the groups, and the rest of the input.
\<close>

primrec re_find_from :: "regex \<Rightarrow> string \<Rightarrow> (string list \<times> string) option" where
  "re_find_from p [] =
     (case p Some ([], []) of
        None \<Rightarrow> None
      | Some (rest, caps) \<Rightarrow> Some ([] # caps, rest))"
| "re_find_from p (c # cs) =
     (case p Some (c # cs, []) of
        None \<Rightarrow> re_find_from p cs
      | Some (rest, caps) \<Rightarrow>
          Some (take (length (c # cs) - length rest) (c # cs) # caps, rest))"

definition FindStringSubmatch :: "regex \<Rightarrow> string \<Rightarrow> string list" where
  "FindStringSubmatch p s = (case re_find_from p s of None \<Rightarrow> [] | Some (m, rest) \<Rightarrow> m)"

text \<open>
  \<^verbatim>\<open>FindAllStringSubmatch(s, -1)\<close>: the successive matches, each search starting where
  the previous match ended. The only pattern used with it consumes at least one
  character in every match; an empty match would move the search on by one character.
\<close>

function FindAllStringSubmatch :: "regex \<Rightarrow> string \<Rightarrow> string list list" where
  "FindAllStringSubmatch p s =
     (case re_find_from p s of
        None \<Rightarrow> []
      | Some (m, rest) \<Rightarrow>
          m # (if length rest < length s then FindAllStringSubmatch p rest
               else (case s of [] \<Rightarrow> [] | c # cs \<Rightarrow> FindAllStringSubmatch p cs)))"
  by pat_completeness auto
termination
  by (relation "measure (\<lambda>(p, s). length s)") auto

declare FindAllStringSubmatch.simps [simp del]

text \<open>
  The classes \<^verbatim>\<open>\d\<close> and \<^verbatim>\<open>\s\<close> of a pattern and the characters \<^verbatim>\<open>.\<close> matches. The
  white space of a pattern is tab, line feed, form feed, carriage return and space: the
  vertical tab, which \<^verbatim>\<open>strings.TrimSpace\<close> trims, is not in it.
\<close>

definition is_digit :: "char \<Rightarrow> bool" where
  "is_digit c = (c \<in> set ''0123456789'')"

definition is_re_space :: "char \<Rightarrow> bool" where
  "is_re_space c = (c = CHR 0x09 \<or> c = CHR 0x0A \<or> c = CHR 0x0C \<or> c = CHR 0x0D \<or> c = CHR '' '')"

definition not_newline :: "char \<Rightarrow> bool" where
  "not_newline c = (c \<noteq> newline)"

text \<open>\<^verbatim>\<open>FindString\<close>: the text of the leftmost match, empty when there is none.\<close>

definition FindString :: "regex \<Rightarrow> string \<Rightarrow> string" where
  "FindString p s = (case FindStringSubmatch p s of [] \<Rightarrow> [] | m # groups \<Rightarrow> m)"

text \<open>A single character of a class.\<close>

definition re_class :: "(char \<Rightarrow> bool) \<Rightarrow> regex" where
  "re_class cls k st = (case st of (s, caps) \<Rightarrow>
     (case s of [] \<Rightarrow> None | c # cs \<Rightarrow> if cls c then k (cs, caps) else None))"

text \<open>
  A pattern that begins with \<^verbatim>\<open>^\<close> matches at the start of the text only:
  \<open>re_find_start\<close> gives the text matched there, if any.
\<close>

definition re_find_start :: "regex \<Rightarrow> string \<Rightarrow> string option" where
  "re_find_start p s =
     (case p Some (s, []) of
        None \<Rightarrow> None
      | Some (rest, caps) \<Rightarrow> Some (take (length s - length rest) s))"

section \<open>Numbers and their text\<close>

text \<open>Go's \<^verbatim>\<open>int64\<close> values and the integral \<^verbatim>\<open>float64\<close> values are mathematical integers here.\<close>

definition digit_value :: "char \<Rightarrow> int" where
  "digit_value c = of_char c - 48"

definition decimal_value :: "string \<Rightarrow> int" where
  "decimal_value s = foldl (\<lambda>n c. 10 * n + digit_value c) 0 s"

text \<open>
  \<^verbatim>\<open>strconv.ParseInt(s, 10, 64)\<close>: an optional sign and decimal digits; \<open>None\<close> is the
  error return (bad syntax, or a value outside the 64-bit signed range).
\<close>

definition parse_digits :: "string \<Rightarrow> int option" where
  "parse_digits s = (if s \<noteq> [] \<and> list_all is_digit s then Some (decimal_value s) else None)"

definition strconv_ParseInt :: "string \<Rightarrow> int option" where
  "strconv_ParseInt s =
     (case s of
        [] \<Rightarrow> None
      | c # cs \<Rightarrow>
          if c = CHR ''-'' then
            (case parse_digits cs of
               None \<Rightarrow> None
             | Some n \<Rightarrow> if n \<le> 2 ^ 63 then Some (- n) else None)
          else
            (case parse_digits (if c = CHR ''+'' then cs else s) of
               None \<Rightarrow> None
             | Some n \<Rightarrow> if n \<le> 2 ^ 63 - 1 then Some n else None))"

definition digit_char :: "int \<Rightarrow> char" where
  "digit_char d = ''0123456789'' ! nat d"

text \<open>The decimal digits of a non-negative integer.\<close>

function show_dec :: "int \<Rightarrow> string" where
  "show_dec n = (if n < 10 then [digit_char n] else show_dec (n div 10) @ [digit_char (n mod 10)])"
  by pat_completeness auto
termination
  by (relation "measure nat") auto

declare show_dec.simps [simp del]

text \<open>The integer nearest to \<open>num / den\<close>, a tie going to the even one.\<close>

definition round_half_even :: "int \<Rightarrow> int \<Rightarrow> int" where
  "round_half_even num den =
     (let q = num div den; r = num mod den
      in if den < 2 * r \<or> (2 * r = den \<and> odd q) then q + 1 else q)"

function bit_length :: "int \<Rightarrow> nat" where
  "bit_length n = (if n \<le> 0 then 0 else Suc (bit_length (n div 2)))"
  by pat_completeness auto
termination
  by (relation "measure nat") auto

declare bit_length.simps [simp del]

text \<open>
  The conversion \<^verbatim>\<open>float64(bytes)\<close> of a non-negative integer: exact up to 53 bits,
  rounded to 53 significant bits (ties to even) beyond. The result is an integer again.
\<close>

definition float64_of_int :: "int \<Rightarrow> int" where
  "float64_of_int n =
     (if bit_length n \<le> 53 then n
      else (let u = 2 ^ (bit_length n - 53) in round_half_even n u * u))"

text \<open>
  \<open>fmt_f prec num den\<close> is \<^verbatim>\<open>fmt.Sprintf("%.<prec>f", x)\<close> for the non-negative
  \<open>x = num / den\<close>: \<open>x\<close> rounded to \<open>prec\<close> decimals, a tie going to the even digit.
  Dividing a \<^verbatim>\<open>float64\<close> by a power of two is exact, so \<open>num / den\<close> is the very
  value the code prints.
\<close>

definition fmt_f :: "nat \<Rightarrow> int \<Rightarrow> int \<Rightarrow> string" where
  "fmt_f prec num den =
     (let t = round_half_even (num * 10 ^ prec) den;
          frac = show_dec (t mod 10 ^ prec)
      in if prec = 0 then show_dec t
         else show_dec (t div 10 ^ prec) @ ''.'' @ replicate (prec - length frac) CHR ''0'' @ frac)"

section \<open>GPU records\<close>

record GPUInfo =
  Vendor :: string
  Model :: string
  Memory :: string
  DriverVersion :: string
  PCIAddress :: string
  RawOutput :: string
  Error :: string

text \<open>The zero value of the struct: every field the empty string.\<close>

definition GPUInfo_zero :: GPUInfo where
  "GPUInfo_zero = \<lparr>Vendor = [], Model = [], Memory = [], DriverVersion = [],
                    PCIAddress = [], RawOutput = [], Error = []\<rparr>"

section \<open>Classification helpers\<close>

definition nvidiaPatterns :: "string list" where
  "nvidiaPatterns = [''nvidia'', ''geforce'', ''quadro'', ''tesla'', ''rtx'', ''gtx'', ''titan'', ''nvs'']"

definition amdPatterns :: "string list" where
  "amdPatterns = [''amd'', ''radeon'', ''rx '', ''vega'', ''navi'', ''rdna'', ''ati'', ''firepro'', ''firegl'']"

definition intelPatterns :: "string list" where
  "intelPatterns = [''intel'', ''iris'', ''uhd graphics'', ''hd graphics'', ''xe graphics'', ''arc'']"

definition applePatterns :: "string list" where
  "applePatterns = [''apple'', ''m1'', ''m2'', ''m3'', ''m4'']"

text \<open>The loop \<^verbatim>\<open>for _, pattern := range patterns\<close> that returns at the first hit.\<close>

definition matches_any :: "string \<Rightarrow> string list \<Rightarrow> bool" where
  "matches_any lower patterns = list_ex (\<lambda>pattern. strings_Contains lower pattern) patterns"

text \<open>
  \<open>determineVendorFromOutput\<close> is \<^verbatim>\<open>lower := strings.ToLower(output)\<close> followed by the
  four loops over the pattern groups, which read \<^verbatim>\<open>lower\<close> only:
  \<open>determineVendorFromLower\<close> is these loops.
\<close>

definition determineVendorFromLower :: "string \<Rightarrow> string" where
  "determineVendorFromLower lower =
     (if matches_any lower nvidiaPatterns then ''nvidia''
      else if matches_any lower amdPatterns then ''amd''
      else if matches_any lower intelPatterns then ''intel''
      else if matches_any lower applePatterns then ''apple''
      else ''unknown'')"

definition determineVendorFromOutput :: "string \<Rightarrow> string" where
  "determineVendorFromOutput output =
     (let lower = strings_ToLower output in determineVendorFromLower lower)"

definition genericTerms :: "string list" where
  "genericTerms = [''basic'', ''generic'', ''standard'', ''vnc'', ''virtual'', ''vmware'', ''vbox'']"

definition isGenericGPU :: "string \<Rightarrow> bool" where
  "isGenericGPU model = matches_any (strings_ToLower model) genericTerms"

definition digits_re :: regex where
  "digits_re = re_many True is_digit 1"

definition formatMemory :: "string \<Rightarrow> string" where
  "formatMemory memStr =
     (let match = FindString digits_re memStr in
      if match \<noteq> [] then
        (case strconv_ParseInt match of
           None \<Rightarrow> memStr
         | Some bytes \<Rightarrow>
             if bytes \<ge> 1024 * 1024 * 1024 then
               fmt_f 1 (float64_of_int bytes) (1024 * 1024 * 1024) @ '' GB''
             else if bytes \<ge> 1024 * 1024 then
               fmt_f 0 (float64_of_int bytes) (1024 * 1024) @ '' MB''
             else memStr)
      else memStr)"

definition normalizeVendorName :: "string \<Rightarrow> string" where
  "normalizeVendorName vendor =
     (let lower = strings_ToLower vendor in
      if strings_Contains lower ''nvidia'' then ''nvidia''
      else if strings_Contains lower ''amd'' \<or> strings_Contains lower ''ati'' then ''amd''
      else if strings_Contains lower ''intel'' then ''intel''
      else if strings_Contains lower ''apple'' then ''apple''
      else strings_ToLower vendor)"

definition is_lower_hex :: "char \<Rightarrow> bool" where
  "is_lower_hex c = (c \<in> set ''0123456789abcdef'')"

text \<open>The pattern \<^verbatim>\<open>^([0-9a-f]{2}:[0-9a-f]{2}\.[0-9a-f])\<close>, tried at the start of the line.\<close>

definition pci_re :: regex where
  "pci_re = re_group (re_class is_lower_hex \<circ> re_class is_lower_hex \<circ> re_lit '':''
                      \<circ> re_class is_lower_hex \<circ> re_class is_lower_hex \<circ> re_lit ''.''
                      \<circ> re_class is_lower_hex)"

text \<open>
  The loop of \<^verbatim>\<open>extractPCIAddress\<close> from index 1 on, \<open>prevLine\<close> being the line before
  \<open>line\<close>; index 0 has no previous line and is skipped by the test \<^verbatim>\<open>i > 0\<close>.
\<close>

primrec pci_scan :: "string \<Rightarrow> string \<Rightarrow> string list \<Rightarrow> string" where
  "pci_scan model prevLine [] = []"
| "pci_scan model prevLine (line # rest) =
     (if strings_Contains line model then
        (case re_find_start pci_re prevLine of
           Some addr \<Rightarrow> addr
         | None \<Rightarrow> pci_scan model line rest)
      else pci_scan model line rest)"

definition extractPCIAddress :: "string \<Rightarrow> string \<Rightarrow> string" where
  "extractPCIAddress output model =
     (case strings_Split output [newline] of
        [] \<Rightarrow> []
      | first # rest \<Rightarrow> pci_scan model first rest)"

text \<open>The pattern \<^verbatim>\<open>NVIDIA.*?(\d+\.\d+(?:\.\d+)?)\<close>.\<close>

definition nvidia_version_re :: regex where
  "nvidia_version_re =
     re_lit ''NVIDIA'' \<circ> re_many False not_newline 0
     \<circ> re_group (re_many True is_digit 1 \<circ> re_lit ''.'' \<circ> re_many True is_digit 1
                 \<circ> re_opt (re_lit ''.'' \<circ> re_many True is_digit 1))"

definition extractNvidiaVersionFromProc :: "string \<Rightarrow> string" where
  "extractNvidiaVersionFromProc data =
     (case FindStringSubmatch nvidia_version_re data of
        m0 # m1 # ms \<Rightarrow> m1
      | _ \<Rightarrow> [])"

text \<open>The pattern \<^verbatim>\<open>size:\s*(\d+)\s*bytes\<close>.\<close>

definition size_re :: regex where
  "size_re = re_lit ''size:'' \<circ> re_many True is_re_space 0 \<circ> re_group (re_many True is_digit 1)
             \<circ> re_many True is_re_space 0 \<circ> re_lit ''bytes''"

definition extractMemoryFromSize :: "string \<Rightarrow> string" where
  "extractMemoryFromSize line =
     (case FindStringSubmatch size_re line of
        m0 # m1 # ms \<Rightarrow>
          (case strconv_ParseInt m1 of
             Some n \<Rightarrow> formatMemory m1
           | None \<Rightarrow> [])
      | _ \<Rightarrow> [])"

section \<open>Output parsers\<close>

text \<open>A loop \<^verbatim>\<open>for _, x := range xs\<close> over a slice is a \<open>foldl\<close> of the loop body.\<close>

definition block_step :: "string list \<times> string \<Rightarrow> string \<Rightarrow> string list \<times> string" where
  "block_step st line = (case st of (blocks, currentBlock) \<Rightarrow>
     if strings_TrimSpace line = [] \<and> length currentBlock > 0 then
       (blocks @ [currentBlock], [])
     else if strings_TrimSpace line \<noteq> [] then
       (blocks, (if length currentBlock > 0 then currentBlock @ [newline] else currentBlock) @ line)
     else (blocks, currentBlock))"

definition splitIntoBlocks :: "string \<Rightarrow> string list" where
  "splitIntoBlocks output =
     (case foldl block_step ([], []) (strings_Split output [newline]) of
        (blocks, currentBlock) \<Rightarrow>
          if length currentBlock > 0 then blocks @ [currentBlock] else blocks)"

text \<open>The patterns \<^verbatim>\<open>"Name":\s*"([^"]+)"\<close>, \<^verbatim>\<open>"DriverVersion":\s*"([^"]+)"\<close>
  and \<^verbatim>\<open>"AdapterRAM":\s*(\d+)\<close>.\<close>

definition dquote :: char where
  "dquote = CHR 0x22"

definition json_string_re :: "string \<Rightarrow> regex" where
  "json_string_re field =
     re_lit ([dquote] @ field @ [dquote] @ '':'') \<circ> re_many True is_re_space 0 \<circ> re_lit [dquote]
     \<circ> re_group (re_many True (\<lambda>c. c \<noteq> dquote) 1) \<circ> re_lit [dquote]"

definition json_number_re :: "string \<Rightarrow> regex" where
  "json_number_re field =
     re_lit ([dquote] @ field @ [dquote] @ '':'') \<circ> re_many True is_re_space 0
     \<circ> re_group (re_many True is_digit 1)"

definition json_block :: "GPUInfo list \<Rightarrow> string \<Rightarrow> GPUInfo list" where
  "json_block gpus block =
     (let gpu = GPUInfo_zero;
          gpu = (case FindStringSubmatch (json_string_re ''Name'') block of
                   m0 # m1 # ms \<Rightarrow> gpu\<lparr>Model := m1\<rparr> | _ \<Rightarrow> gpu);
          gpu = (case FindStringSubmatch (json_string_re ''DriverVersion'') block of
                   m0 # m1 # ms \<Rightarrow> gpu\<lparr>DriverVersion := m1\<rparr> | _ \<Rightarrow> gpu);
          gpu = (case FindStringSubmatch (json_number_re ''AdapterRAM'') block of
                   m0 # m1 # ms \<Rightarrow> gpu\<lparr>Memory := formatMemory m1\<rparr> | _ \<Rightarrow> gpu)
      in if Model gpu \<noteq> [] \<and> \<not> isGenericGPU (Model gpu) then
           gpus @ [gpu\<lparr>Vendor := determineVendorFromOutput (Model gpu), RawOutput := block\<rparr>]
         else gpus)"

definition parseWindowsJSONOutput :: "string \<Rightarrow> GPUInfo list" where
  "parseWindowsJSONOutput output = foldl json_block [] (strings_Split output ''},{'')"

definition windows_line :: "GPUInfo \<Rightarrow> string \<Rightarrow> GPUInfo" where
  "windows_line gpu line0 =
     (let line = strings_TrimSpace line0 in
      if line = [] then gpu
      else (case strings_SplitN2 line '':'' of
              [p0, p1] \<Rightarrow>
                (let key = strings_TrimSpace (strings_ToLower p0);
                     val = strings_TrimSpace p1
                 in if strings_Contains key ''name'' then gpu\<lparr>Model := val\<rparr>
                    else if strings_Contains key ''videoprocessor'' then
                      (if Model gpu = [] then gpu\<lparr>Model := val\<rparr> else gpu)
                    else if strings_Contains key ''driverversion'' then gpu\<lparr>DriverVersion := val\<rparr>
                    else if strings_Contains key ''adapterram'' then gpu\<lparr>Memory := formatMemory val\<rparr>
                    else gpu)
            | _ \<Rightarrow> gpu))"

definition windows_block :: "GPUInfo list \<Rightarrow> string \<Rightarrow> GPUInfo list" where
  "windows_block gpus block =
     (let gpu = foldl windows_line (GPUInfo_zero\<lparr>RawOutput := block\<rparr>)
                  (strings_Split block [newline])
      in if Model gpu \<noteq> [] \<and> \<not> isGenericGPU (Model gpu) then
           gpus @ [gpu\<lparr>Vendor := determineVendorFromOutput (Model gpu)\<rparr>]
         else gpus)"

definition parseWindowsGPUOutput :: "string \<Rightarrow> GPUInfo list" where
  "parseWindowsGPUOutput output =
     (if strings_Contains output ''{'' \<and> strings_Contains output ''}'' then
        parseWindowsJSONOutput output
      else foldl windows_block [] (splitIntoBlocks output))"

text \<open>The pattern \<^verbatim>\<open>(?i)(VGA|3D|Display).*?:\s*(.+)\<close>.\<close>

definition lspci_re :: regex where
  "lspci_re =
     re_group (re_alt (re_ilit ''VGA'') (re_alt (re_ilit ''3D'') (re_ilit ''Display'')))
     \<circ> re_many False not_newline 0 \<circ> re_lit '':'' \<circ> re_many True is_re_space 0
     \<circ> re_group (re_many True not_newline 1)"

definition lspci_match :: "string \<Rightarrow> GPUInfo list \<Rightarrow> string list \<Rightarrow> GPUInfo list" where
  "lspci_match output gpus match =
     (case match of
        m0 # m1 # m2 # ms \<Rightarrow>
          (let model = strings_TrimSpace m2 in
           if \<not> isGenericGPU model then
             (let gpu = GPUInfo_zero\<lparr>Vendor := determineVendorFromOutput model,
                                     Model := model, RawOutput := output\<rparr>;
                  pciAddr = extractPCIAddress output model;
                  gpu = (if pciAddr \<noteq> [] then gpu\<lparr>PCIAddress := pciAddr\<rparr> else gpu)
              in gpus @ [gpu])
           else gpus)
      | _ \<Rightarrow> gpus)"

definition parseLinuxLspciOutput :: "string \<Rightarrow> GPUInfo list" where
  "parseLinuxLspciOutput output =
     foldl (lspci_match output) [] (FindAllStringSubmatch lspci_re output)"

definition lshw_line :: "GPUInfo \<Rightarrow> string \<Rightarrow> GPUInfo" where
  "lshw_line gpu line0 =
     (let line = strings_TrimSpace line0 in
      if strings_HasPrefix line ''product:'' then
        gpu\<lparr>Model := strings_TrimSpace (strings_TrimPrefix line ''product:'')\<rparr>
      else if strings_HasPrefix line ''vendor:'' then
        (let vendor = strings_TrimSpace (strings_TrimPrefix line ''vendor:'') in
         if Vendor gpu = [] \<or> Vendor gpu = ''unknown'' then
           gpu\<lparr>Vendor := normalizeVendorName vendor\<rparr>
         else gpu)
      else if strings_Contains line ''size:'' \<and> strings_Contains line ''bytes'' then
        gpu\<lparr>Memory := extractMemoryFromSize line\<rparr>
      else gpu)"

definition lshw_block :: "GPUInfo list \<Rightarrow> string \<Rightarrow> GPUInfo list" where
  "lshw_block gpus block =
     (let gpu = foldl lshw_line (GPUInfo_zero\<lparr>RawOutput := block\<rparr>)
                  (strings_Split block [newline])
      in if Model gpu \<noteq> [] \<and> \<not> isGenericGPU (Model gpu) then
           gpus @ [if Vendor gpu = [] \<or> Vendor gpu = ''unknown''
                   then gpu\<lparr>Vendor := determineVendorFromOutput (Model gpu)\<rparr> else gpu]
         else gpus)"

definition parseLinuxLshwOutput :: "string \<Rightarrow> GPUInfo list" where
  "parseLinuxLshwOutput output = foldl lshw_block [] (splitIntoBlocks output)"

definition mac_line :: "GPUInfo \<Rightarrow> string \<Rightarrow> GPUInfo" where
  "mac_line gpu line0 =
     (let line = strings_TrimSpace line0 in
      if strings_Contains line ''Chipset Model:'' then
        (case strings_SplitN2 line '':'' of
           [p0, p1] \<Rightarrow> gpu\<lparr>Model := strings_TrimSpace p1\<rparr>
         | _ \<Rightarrow> gpu)
      else if strings_Contains line ''VRAM'' \<and> strings_Contains line '':'' then
        (case strings_SplitN2 line '':'' of
           [p0, p1] \<Rightarrow> gpu\<lparr>Memory := strings_TrimSpace p1\<rparr>
         | _ \<Rightarrow> gpu)
      else gpu)"

definition mac_block :: "GPUInfo list \<Rightarrow> string \<Rightarrow> GPUInfo list" where
  "mac_block gpus block =
     (let gpu = foldl mac_line (GPUInfo_zero\<lparr>RawOutput := block\<rparr>)
                  (strings_Split block [newline])
      in if Model gpu \<noteq> [] then
           gpus @ [gpu\<lparr>Vendor := determineVendorFromOutput (Model gpu)\<rparr>]
         else gpus)"

definition parseMacGPUOutput :: "string \<Rightarrow> GPUInfo list" where
  "parseMacGPUOutput output = foldl mac_block [] (splitIntoBlocks output)"

definition glx_line :: "string \<Rightarrow> GPUInfo list \<Rightarrow> string \<Rightarrow> GPUInfo list" where
  "glx_line output gpus line =
     (if strings_Contains line ''OpenGL renderer string:'' then
        (case strings_SplitN2 line '':'' of
           [p0, p1] \<Rightarrow>
             (let model = strings_TrimSpace p1 in
              if \<not> isGenericGPU model then
                gpus @ [GPUInfo_zero\<lparr>Vendor := determineVendorFromOutput model,
                                       Model := model, RawOutput := output\<rparr>]
              else gpus)
         | _ \<Rightarrow> gpus)
      else gpus)"

definition parseLinuxGLXOutput :: "string \<Rightarrow> GPUInfo list" where
  "parseLinuxGLXOutput output = foldl (glx_line output) [] (strings_Split output [newline])"

section \<open>Merging the Linux probes\<close>

definition areGPUsSimilar :: "GPUInfo \<Rightarrow> GPUInfo \<Rightarrow> bool" where
  "areGPUsSimilar gpu1 gpu2 =
     (Vendor gpu1 = Vendor gpu2 \<and>
      (strings_Contains (Model gpu1) (Model gpu2) \<or> strings_Contains (Model gpu2) (Model gpu1)))"

text \<open>The three assignments made to \<^verbatim>\<open>result[i]\<close> when it is similar to \<open>newGPU\<close>.\<close>

definition backfill :: "GPUInfo \<Rightarrow> GPUInfo \<Rightarrow> GPUInfo" where
  "backfill r newGPU =
     (let r = (if Memory r = [] \<and> Memory newGPU \<noteq> [] then r\<lparr>Memory := Memory newGPU\<rparr> else r);
          r = (if DriverVersion r = [] \<and> DriverVersion newGPU \<noteq> []
               then r\<lparr>DriverVersion := DriverVersion newGPU\<rparr> else r);
          r = (if PCIAddress r = [] \<and> PCIAddress newGPU \<noteq> []
               then r\<lparr>PCIAddress := PCIAddress newGPU\<rparr> else r)
      in r)"

text \<open>
  The inner loop over \<^verbatim>\<open>result\<close>: it stops at the first similar record, which it
  back-fills; the flag is \<^verbatim>\<open>found\<close>.
\<close>

primrec merge_scan :: "GPUInfo list \<Rightarrow> GPUInfo \<Rightarrow> GPUInfo list \<times> bool" where
  "merge_scan [] newGPU = ([], False)"
| "merge_scan (existingGPU # rest) newGPU =
     (if areGPUsSimilar existingGPU newGPU then (backfill existingGPU newGPU # rest, True)
      else (case merge_scan rest newGPU of (rest', found) \<Rightarrow> (existingGPU # rest', found)))"

text \<open>The body of the outer loop, for one \<^verbatim>\<open>newGPU\<close>.\<close>

definition merge_one :: "GPUInfo list \<Rightarrow> GPUInfo \<Rightarrow> GPUInfo list" where
  "merge_one result newGPU =
     (case merge_scan result newGPU of
        (result', found) \<Rightarrow> if \<not> found then result' @ [newGPU] else result')"

definition mergeLinuxGPUInfo :: "GPUInfo list \<Rightarrow> GPUInfo list \<Rightarrow> GPUInfo list" where
  "mergeLinuxGPUInfo existing new = foldl merge_one existing new"

section \<open>The host and the probes\<close>

text \<open>
  What the detector reads from its environment: the platform name \<^verbatim>\<open>runtime.GOOS\<close>,
  the outcome of running a command under a timeout (\<open>Inl\<close> the error text of a failed
  start, a non-zero exit or an expired timeout, \<open>Inr\<close> the standard output), and the
  outcome of reading a file. The detector uses the output of a command only when the
  command reported no error.
\<close>

record host =
  GOOS :: string
  exec_Output :: "int \<Rightarrow> string \<Rightarrow> string list \<Rightarrow> string + string"
  os_ReadFile :: "string \<Rightarrow> string + string"

text \<open>Every command started and every file read is logged, in order.\<close>

datatype probe_event = Exec string "string list" | ReadFile string

type_synonym trace = "probe_event list"

record GPUDetector =
  timeout :: int

text \<open>\<^verbatim>\<open>10 * time.Second\<close>, a duration in nanoseconds.\<close>

definition NewGPUDetector :: GPUDetector where
  "NewGPUDetector = \<lparr>timeout = 10 * 1000000000\<rparr>"

definition runCommandWithTimeout ::
  "GPUDetector \<Rightarrow> host \<Rightarrow> string \<Rightarrow> string list \<Rightarrow> trace \<Rightarrow> (string + string) \<times> trace" where
  "runCommandWithTimeout d h name args tr =
     (exec_Output h (timeout d) name args, tr @ [Exec name args])"

text \<open>The record that stands for a failed detection.\<close>

definition sentinel :: "string \<Rightarrow> GPUInfo" where
  "sentinel msg = GPUInfo_zero\<lparr>Vendor := ''unknown'', Model := ''unknown'', Error := msg\<rparr>"

subsection \<open>Windows\<close>

definition cim_script :: string where
  "cim_script = ''Get-CimInstance -ClassName Win32_VideoController | Where-Object {$_.Name -notlike '*Basic*' -and $_.Name -notlike '*Generic*' -and $_.Name -notlike '*VNC*'} | Select-Object Name, VideoProcessor, DriverVersion, AdapterRAM, PNPDeviceID | ConvertTo-Json''"

definition wmi_script :: string where
  "wmi_script = ''Get-WmiObject -Class Win32_VideoController | Where-Object {$_.Name -notlike '*Basic*' -and $_.Name -notlike '*Generic*'} | Select-Object Name, VideoProcessor, DriverVersion, AdapterRAM | Format-List''"

definition wmic_args :: "string list" where
  "wmic_args = [''path'', ''win32_VideoController'', ''get'',
                ''name,VideoProcessor,DriverVersion,AdapterRAM'', ''/format:list'']"

text \<open>A probe method returns \<open>Inl err\<close> for \<^verbatim>\<open>(nil, err)\<close> and \<open>Inr gpus\<close> for \<^verbatim>\<open>(gpus, nil)\<close>.\<close>

type_synonym probe_method = "trace \<Rightarrow> (string + GPUInfo list) \<times> trace"

definition run_and_parse ::
  "GPUDetector \<Rightarrow> host \<Rightarrow> string \<Rightarrow> string list \<Rightarrow> probe_method" where
  "run_and_parse d h name args tr =
     (case runCommandWithTimeout d h name args tr of
        (Inl err, tr') \<Rightarrow> (Inl err, tr')
      | (Inr out, tr') \<Rightarrow> (Inr (parseWindowsGPUOutput out), tr'))"

definition detectWindowsGPUsPowerShellCIM :: "GPUDetector \<Rightarrow> host \<Rightarrow> probe_method" where
  "detectWindowsGPUsPowerShellCIM d h =
     run_and_parse d h ''powershell'' [''-NoProfile'', ''-Command'', cim_script]"

definition detectWindowsGPUsPowerShellWMI :: "GPUDetector \<Rightarrow> host \<Rightarrow> probe_method" where
  "detectWindowsGPUsPowerShellWMI d h =
     run_and_parse d h ''powershell'' [''-NoProfile'', ''-Command'', wmi_script]"

definition detectWindowsGPUsWMIC :: "GPUDetector \<Rightarrow> host \<Rightarrow> probe_method" where
  "detectWindowsGPUsWMIC d h = run_and_parse d h ''wmic'' wmic_args"

text \<open>
  The loop over \<^verbatim>\<open>methods\<close>: \<open>Some gpus\<close> is the early \<^verbatim>\<open>return gpus, nil\<close>, \<open>None\<close>
  is falling out of the loop.
\<close>

primrec try_methods :: "(string \<times> probe_method) list \<Rightarrow> trace \<Rightarrow> GPUInfo list option \<times> trace" where
  "try_methods [] tr = (None, tr)"
| "try_methods (method # rest) tr =
     (case snd method tr of
        (Inr gpus, tr') \<Rightarrow> if length gpus > 0 then (Some gpus, tr') else try_methods rest tr'
      | (Inl err, tr') \<Rightarrow> try_methods rest tr')"

text \<open>
  The detection functions return \<^verbatim>\<open>([]GPUInfo, error)\<close>: a pair of the records and
  the error, \<open>None\<close> being \<^verbatim>\<open>nil\<close>; the trace comes with it.
\<close>

definition detectWindowsGPUs ::
  "GPUDetector \<Rightarrow> host \<Rightarrow> trace \<Rightarrow> (GPUInfo list \<times> string option) \<times> trace" where
  "detectWindowsGPUs d h tr =
     (let methods = [(''PowerShell CIM'', detectWindowsGPUsPowerShellCIM d h),
                     (''PowerShell WMI'', detectWindowsGPUsPowerShellWMI d h),
                     (''WMIC'', detectWindowsGPUsWMIC d h)]
      in case try_methods methods tr of
           (Some gpus, tr') \<Rightarrow> ((gpus, None), tr')
         | (None, tr') \<Rightarrow>
             (([sentinel ''Failed to detect GPU using all Windows methods''], None), tr'))"

subsection \<open>Linux\<close>

definition lspci_selector :: string where
  "lspci_selector = ''$(lspci | grep -i vga | cut -d' ' -f1)''"

definition tryLinuxLspci :: "GPUDetector \<Rightarrow> host \<Rightarrow> trace \<Rightarrow> GPUInfo list \<times> trace" where
  "tryLinuxLspci d h tr =
     (case runCommandWithTimeout d h ''lspci'' [''-v'', ''-s'', lspci_selector] tr of
        (Inr out, tr1) \<Rightarrow> (parseLinuxLspciOutput out, tr1)
      | (Inl err, tr1) \<Rightarrow>
          (case runCommandWithTimeout d h ''lspci'' [] tr1 of
             (Inl err2, tr2) \<Rightarrow> ([], tr2)
           | (Inr out, tr2) \<Rightarrow> (parseLinuxLspciOutput out, tr2)))"

definition tryLinuxLshw :: "GPUDetector \<Rightarrow> host \<Rightarrow> trace \<Rightarrow> GPUInfo list \<times> trace" where
  "tryLinuxLshw d h tr =
     (case runCommandWithTimeout d h ''lshw'' [''-C'', ''display''] tr of
        (Inl err, tr') \<Rightarrow> ([], tr')
      | (Inr out, tr') \<Rightarrow> (parseLinuxLshwOutput out, tr'))"

definition nvidia_proc_path :: string where
  "nvidia_proc_path = ''/proc/driver/nvidia/version''"

definition tryLinuxNvidiaProc :: "host \<Rightarrow> trace \<Rightarrow> GPUInfo \<times> trace" where
  "tryLinuxNvidiaProc h tr =
     (case os_ReadFile h nvidia_proc_path of
        Inr data \<Rightarrow>
          (GPUInfo_zero\<lparr>Vendor := ''nvidia'', Model := ''NVIDIA GPU'',
                         DriverVersion := extractNvidiaVersionFromProc data,
                         RawOutput := data\<rparr>,
           tr @ [ReadFile nvidia_proc_path])
      | Inl err \<Rightarrow> (GPUInfo_zero\<lparr>Vendor := ''unknown''\<rparr>, tr @ [ReadFile nvidia_proc_path]))"

definition tryLinuxGLX :: "GPUDetector \<Rightarrow> host \<Rightarrow> trace \<Rightarrow> GPUInfo list \<times> trace" where
  "tryLinuxGLX d h tr =
     (case runCommandWithTimeout d h ''glxinfo'' [] tr of
        (Inl err, tr') \<Rightarrow> ([], tr')
      | (Inr out, tr') \<Rightarrow> (parseLinuxGLXOutput out, tr'))"

definition detectLinuxGPUs ::
  "GPUDetector \<Rightarrow> host \<Rightarrow> trace \<Rightarrow> (GPUInfo list \<times> string option) \<times> trace" where
  "detectLinuxGPUs d h tr =
     (let gpus = [];
          (lspciGPUs, tr) = tryLinuxLspci d h tr;
          gpus = (if length lspciGPUs > 0 then gpus @ lspciGPUs else gpus);
          (lshwGPUs, tr) = tryLinuxLshw d h tr;
          gpus = (if length lshwGPUs > 0 then mergeLinuxGPUInfo gpus lshwGPUs else gpus);
          (nvidiaGPU, tr) = tryLinuxNvidiaProc h tr;
          gpus = (if Vendor nvidiaGPU \<noteq> ''unknown''
                  then mergeLinuxGPUInfo gpus [nvidiaGPU] else gpus);
          (glxGPUs, tr) = tryLinuxGLX d h tr;
          gpus = (if length glxGPUs > 0 then mergeLinuxGPUInfo gpus glxGPUs else gpus)
      in if length gpus = 0 then
           (([sentinel ''Could not detect GPU. Consider installing lspci, lshw, or mesa-utils''],
             None), tr)
         else ((gpus, None), tr))"

subsection \<open>macOS\<close>

definition detectMacGPUs ::
  "GPUDetector \<Rightarrow> host \<Rightarrow> trace \<Rightarrow> (GPUInfo list \<times> string option) \<times> trace" where
  "detectMacGPUs d h tr =
     (case runCommandWithTimeout d h ''system_profiler'' [''SPDisplaysDataType''] tr of
        (Inl err, tr') \<Rightarrow> (([sentinel (''Failed to run system_profiler: '' @ err)], None), tr')
      | (Inr out, tr') \<Rightarrow> ((parseMacGPUOutput out, None), tr'))"

subsection \<open>Entry points\<close>

definition DetectGPUs ::
  "GPUDetector \<Rightarrow> host \<Rightarrow> trace \<Rightarrow> (GPUInfo list \<times> string option) \<times> trace" where
  "DetectGPUs d h tr =
     (if GOOS h = ''windows'' then detectWindowsGPUs d h tr
      else if GOOS h = ''linux'' then detectLinuxGPUs d h tr
      else if GOOS h = ''darwin'' then detectMacGPUs d h tr
      else (([sentinel (''Unsupported operating system: '' @ GOOS h)], None), tr))"

text \<open>\<^verbatim>\<open>fmt.Sprintf("%v", err)\<close>: the message of the error, \<^verbatim>\<open><nil>\<close> for a nil error.\<close>

definition show_error :: "string option \<Rightarrow> string" where
  "show_error err = (case err of None \<Rightarrow> ''<nil>'' | Some msg \<Rightarrow> msg)"

definition DetectGPUVendor :: "host \<Rightarrow> trace \<Rightarrow> GPUInfo \<times> trace" where
  "DetectGPUVendor h tr =
     (let detector = NewGPUDetector in
      case DetectGPUs detector h tr of
        ((gpus, err), tr') \<Rightarrow>
          if err \<noteq> None \<or> length gpus = 0 then
            (sentinel (''Detection failed: '' @ show_error err), tr')
          else (gpus ! 0, tr'))"

section \<open>Notions of the specification\<close>

text \<open>
  The definitions of this section do not model code: they say in the words of the
  specification what the theorems below compare the code with.
\<close>

text \<open>A model string contains, ignoring case, one of the substrings of a pattern group.\<close>

definition contains_pattern :: "string list \<Rightarrow> string \<Rightarrow> bool" where
  "contains_pattern patterns model = (\<exists>p \<in> set patterns. sublist p (strings_ToLower model))"



text \<open>Two records match: equal vendors, and one model string contains the other.\<close>

definition same_gpu :: "GPUInfo \<Rightarrow> GPUInfo \<Rightarrow> bool" where
  "same_gpu e n = (Vendor e = Vendor n \<and> (sublist (Model n) (Model e) \<or> sublist (Model e) (Model n)))"

text \<open>An empty field takes the new value, a non-empty field keeps its own.\<close>

definition fill :: "string \<Rightarrow> string \<Rightarrow> string" where
  "fill old new = (if old = [] then new else old)"

definition filled :: "GPUInfo \<Rightarrow> GPUInfo \<Rightarrow> GPUInfo" where
  "filled e n = e\<lparr>Memory := fill (Memory e) (Memory n),
                  DriverVersion := fill (DriverVersion e) (DriverVersion n),
                  PCIAddress := fill (PCIAddress e) (PCIAddress n)\<rparr>"

text \<open>The byte count of a memory string: its first run of decimal digits, read as a number.\<close>

definition first_digit_run :: "string \<Rightarrow> string" where
  "first_digit_run s = takeWhile is_digit (dropWhile (\<lambda>c. \<not> is_digit c) s)"

definition byte_count :: "string \<Rightarrow> int" where
  "byte_count memStr = decimal_value (first_digit_run memStr)"



text \<open>The arguments of the two PowerShell strategies.\<close>

definition cim_args :: "string list" where
  "cim_args = [''-NoProfile'', ''-Command'', cim_script]"

definition wmi_args :: "string list" where
  "wmi_args = [''-NoProfile'', ''-Command'', wmi_script]"

text \<open>
  The records a Windows strategy contributes: what its output parses to, and nothing
  when the command fails. A strategy succeeds and yields a record when this is not empty.
\<close>

definition strategy_yield :: "GPUDetector \<Rightarrow> host \<Rightarrow> string \<Rightarrow> string list \<Rightarrow> GPUInfo list" where
  "strategy_yield d h name args =
     (case exec_Output h (timeout d) name args of
        Inl err \<Rightarrow> []
      | Inr out \<Rightarrow> parseWindowsGPUOutput out)"

text \<open>The error texts of the Windows and the Linux sentinel.\<close>

definition windows_msg :: string where
  "windows_msg = ''Failed to detect GPU using all Windows methods''"

definition linux_msg :: string where
  "linux_msg = ''Could not detect GPU. Consider installing lspci, lshw, or mesa-utils''"

text \<open>A sentinel: vendor and model \<open>unknown\<close> and a non-empty error text.\<close>

definition is_sentinel :: "GPUInfo \<Rightarrow> bool" where
  "is_sentinel g = (Vendor g = ''unknown'' \<and> Model g = ''unknown'' \<and> Error g \<noteq> [])"

text \<open>
  Total detection failure: the platform is not supported, or every probe of the
  platform's branch fails (the command or the file read returns an error).
\<close>

definition failed :: "string + string \<Rightarrow> bool" where
  "failed r = (case r of Inl err \<Rightarrow> True | Inr out \<Rightarrow> False)"

definition detection_fails :: "GPUDetector \<Rightarrow> host \<Rightarrow> bool" where
  "detection_fails d h =
     (if GOOS h = ''windows'' then
        failed (exec_Output h (timeout d) ''powershell'' cim_args)
        \<and> failed (exec_Output h (timeout d) ''powershell'' wmi_args)
        \<and> failed (exec_Output h (timeout d) ''wmic'' wmic_args)
      else if GOOS h = ''linux'' then
        failed (exec_Output h (timeout d) ''lspci'' [''-v'', ''-s'', lspci_selector])
        \<and> failed (exec_Output h (timeout d) ''lspci'' [])
        \<and> failed (exec_Output h (timeout d) ''lshw'' [''-C'', ''display''])
        \<and> failed (os_ReadFile h nvidia_proc_path)
        \<and> failed (exec_Output h (timeout d) ''glxinfo'' [])
      else if GOOS h = ''darwin'' then
        failed (exec_Output h (timeout d) ''system_profiler'' [''SPDisplaysDataType''])
      else True)"

section \<open>Auxiliary notions of the proofs\<close>

text \<open>A record without error text whose vendor is the classification of its model.\<close>

definition classified :: "GPUInfo \<Rightarrow> bool" where
  "classified g = (Error g = [] \<and> Vendor g = determineVendorFromOutput (Model g))"




section \<open>Example inputs\<close>

definition radeon_seen :: GPUInfo where
  "radeon_seen = GPUInfo_zero\<lparr>Vendor := ''amd'', Model := ''Radeon RX 580'', DriverVersion := ''22.1''\<rparr>"

definition radeon_again :: GPUInfo where
  "radeon_again = GPUInfo_zero\<lparr>Vendor := ''amd'', Model := ''RX 580'', Memory := ''8.0 GB'',
                                DriverVersion := ''23.4''\<rparr>"

definition uhd_new :: GPUInfo where
  "uhd_new = GPUInfo_zero\<lparr>Vendor := ''intel'', Model := ''UHD 630''\<rparr>"

text \<open>A Mac whose \<^verbatim>\<open>system_profiler\<close> runs and reports no graphics device.\<close>

definition headless_mac :: host where
  "headless_mac =
     \<lparr>GOOS = ''darwin'',
      exec_Output = (\<lambda>t name args.
        if name = ''system_profiler'' then Inr (''Graphics/Displays:'' @ [newline])
        else Inl ''executable file not found in $PATH''),
      os_ReadFile = (\<lambda>path. Inl ''no such file or directory'')\<rparr>"

text \<open>A Mac in a virtual machine.\<close>

definition vmware_profile :: string where
  "vmware_profile = ''Graphics/Displays:'' @ [newline] @ [newline]
     @ ''    Display:'' @ [newline] @ [newline]
     @ ''      Chipset Model: VMware SVGA II'' @ [newline]
     @ ''      VRAM (Total): 128 MB'' @ [newline]"

definition vmware_mac :: host where
  "vmware_mac = headless_mac\<lparr>exec_Output := (\<lambda>t name args.
        if name = ''system_profiler'' then Inr vmware_profile
        else Inl ''executable file not found in $PATH'')\<rparr>"




text \<open>
  A Windows host where the CIM query fails, the WMI query prints nothing and
  \<^verbatim>\<open>wmic\<close> reports one adapter.
\<close>

definition fallback_windows :: host where
  "fallback_windows =
     \<lparr>GOOS = ''windows'',
      exec_Output = (\<lambda>t name args.
        if name = ''wmic'' then Inr ''Name : Radeon RX 580''
        else if args = cim_args then Inl ''exit status 1''
        else Inr []),
      os_ReadFile = (\<lambda>path. Inl ''no such file or directory'')\<rparr>"

definition radeon_wmic :: GPUInfo where
  "radeon_wmic = GPUInfo_zero\<lparr>Vendor := ''amd'', Model := ''Radeon RX 580'',
                                RawOutput := ''Name : Radeon RX 580''\<rparr>"

text \<open>A Linux host with none of the tools and no NVIDIA driver.\<close>

definition bare_linux :: host where
  "bare_linux =
     \<lparr>GOOS = ''linux'',
      exec_Output = (\<lambda>t name args. Inl ''executable file not found in $PATH''),
      os_ReadFile = (\<lambda>path. Inl ''no such file or directory'')\<rparr>"

section \<open>Substrings and patterns\<close>

lemma strings_Contains_sublist: "strings_Contains s sub \<longleftrightarrow> sublist sub s"
  by (induction s) (auto simp: sublist_Cons_right)

lemma matches_any_contains_pattern:
  "matches_any (strings_ToLower model) patterns \<longleftrightarrow> contains_pattern patterns model"
  by (simp add: matches_any_def contains_pattern_def list_ex_iff strings_Contains_sublist)

section \<open>Vendor classification\<close>





section \<open>The merge of the Linux probes\<close>

lemma areGPUsSimilar_same_gpu: "areGPUsSimilar e n \<longleftrightarrow> same_gpu e n"
  by (simp add: areGPUsSimilar_def same_gpu_def strings_Contains_sublist)

lemma backfill_filled: "backfill e n = filled e n"
  by (simp add: backfill_def filled_def fill_def Let_def)

lemma merge_scan_none:
  "\<forall>e \<in> set xs. \<not> same_gpu e n \<Longrightarrow> merge_scan xs n = (xs, False)"
  by (induction xs) (simp_all add: areGPUsSimilar_same_gpu)

lemma merge_scan_first:
  "i < length xs \<Longrightarrow> same_gpu (xs ! i) n \<Longrightarrow> \<forall>j < i. \<not> same_gpu (xs ! j) n
   \<Longrightarrow> merge_scan xs n = (xs[i := filled (xs ! i) n], True)"
proof (induction xs arbitrary: i)
  case Nil
  then show ?case by simp
next
  case (Cons x xs)
  show ?case
  proof (cases i)
    case 0
    with Cons.prems show ?thesis
      by (simp add: areGPUsSimilar_same_gpu backfill_filled)
  next
    case (Suc k)
    with Cons.prems have "\<not> same_gpu x n" by fastforce
    moreover from Suc Cons.prems have "merge_scan xs n = (xs[k := filled (xs ! k) n], True)"
      by (intro Cons.IH) auto
    ultimately show ?thesis using Suc
      by (simp add: areGPUsSimilar_same_gpu)
  qed
qed

lemma merge_single: "mergeLinuxGPUInfo xs [n] = merge_one xs n"
  by (simp add: mergeLinuxGPUInfo_def)

text \<open>
  C4: when \<open>mergeLinuxGPUInfo\<close> merges a new record that matches an existing one (equal
  vendor, one model string containing the other), the first matching record gets each
  of its empty memory, driver version and PCI address fields from the new record, and
  keeps every field that was not empty, the model included; no other record changes. A
  new record that matches no existing record is appended. A list of new records is
  merged one record after the other. Merging \<open>RTX 3080\<close> with 10.0 GB into
  \<open>GeForce RTX 3080\<close> without memory gives one record, \<open>GeForce RTX 3080\<close> with 10.0 GB.
\<close>

theorem mergeLinuxGPUInfo_backfill:
  "(i < length xs \<and> same_gpu (xs ! i) n \<and> (\<forall>j < i. \<not> same_gpu (xs ! j) n)
      \<longrightarrow> mergeLinuxGPUInfo xs [n] = xs[i := filled (xs ! i) n])
   \<and> ((\<forall>e \<in> set xs. \<not> same_gpu e n) \<longrightarrow> mergeLinuxGPUInfo xs [n] = xs @ [n])
   \<and> foldl (\<lambda>acc g. mergeLinuxGPUInfo acc [g]) xs ns = mergeLinuxGPUInfo xs ns
   \<and> mergeLinuxGPUInfo
        [GPUInfo_zero\<lparr>Vendor := ''nvidia'', Model := ''GeForce RTX 3080''\<rparr>]
        [GPUInfo_zero\<lparr>Vendor := ''nvidia'', Model := ''RTX 3080'', Memory := ''10.0 GB''\<rparr>]
      = [GPUInfo_zero\<lparr>Vendor := ''nvidia'', Model := ''GeForce RTX 3080'', Memory := ''10.0 GB''\<rparr>]"
proof (intro conjI impI)
  assume "i < length xs \<and> same_gpu (xs ! i) n \<and> (\<forall>j < i. \<not> same_gpu (xs ! j) n)"
  then have "merge_scan xs n = (xs[i := filled (xs ! i) n], True)"
    by (intro merge_scan_first) simp_all
  then show "mergeLinuxGPUInfo xs [n] = xs[i := filled (xs ! i) n]"
    by (simp add: merge_single merge_one_def)
next
  assume "\<forall>e \<in> set xs. \<not> same_gpu e n"
  then show "mergeLinuxGPUInfo xs [n] = xs @ [n]"
    by (simp add: merge_single merge_one_def merge_scan_none)
next
  show "foldl (\<lambda>acc g. mergeLinuxGPUInfo acc [g]) xs ns = mergeLinuxGPUInfo xs ns"
    by (simp add: mergeLinuxGPUInfo_def)
next
  show "mergeLinuxGPUInfo
        [GPUInfo_zero\<lparr>Vendor := ''nvidia'', Model := ''GeForce RTX 3080''\<rparr>]
        [GPUInfo_zero\<lparr>Vendor := ''nvidia'', Model := ''RTX 3080'', Memory := ''10.0 GB''\<rparr>]
      = [GPUInfo_zero\<lparr>Vendor := ''nvidia'', Model := ''GeForce RTX 3080'', Memory := ''10.0 GB''\<rparr>]"
    by code_simp
qed

theorem mergeLinuxGPUInfo_backfill_witness:
  "same_gpu radeon_seen radeon_again
   \<and> mergeLinuxGPUInfo [radeon_seen] [radeon_again] = [radeon_seen\<lparr>Memory := ''8.0 GB''\<rparr>]
   \<and> \<not> same_gpu radeon_seen uhd_new
   \<and> mergeLinuxGPUInfo [radeon_seen] [uhd_new] = [radeon_seen, uhd_new]"
proof -
  have s: "same_gpu radeon_seen radeon_again"
    unfolding areGPUsSimilar_same_gpu [symmetric] by code_simp
  have d: "\<not> same_gpu radeon_seen uhd_new"
    unfolding areGPUsSimilar_same_gpu [symmetric] by code_simp
  have f: "filled radeon_seen radeon_again = radeon_seen\<lparr>Memory := ''8.0 GB''\<rparr>"
    by (simp add: filled_def fill_def radeon_seen_def radeon_again_def GPUInfo_zero_def)
  have "mergeLinuxGPUInfo [radeon_seen] [radeon_again] = [radeon_seen][0 := filled ([radeon_seen] ! 0) radeon_again]"
    using mergeLinuxGPUInfo_backfill [of 0 "[radeon_seen]" radeon_again, THEN conjunct1] s by simp
  then have m: "mergeLinuxGPUInfo [radeon_seen] [radeon_again] = [radeon_seen\<lparr>Memory := ''8.0 GB''\<rparr>]"
    by (simp add: f)
  have a: "mergeLinuxGPUInfo [radeon_seen] [uhd_new] = [radeon_seen, uhd_new]"
    using mergeLinuxGPUInfo_backfill [of 0 "[radeon_seen]" uhd_new, THEN conjunct2, THEN conjunct1] d by simp
  from s m d a show ?thesis by blast
qed

text \<open>
  C8: merging an empty list of new records returns the existing records: the same
  records, in the same order, with the same fields.
\<close>

theorem mergeLinuxGPUInfo_empty: "mergeLinuxGPUInfo existing [] = existing"
  by (simp add: mergeLinuxGPUInfo_def)

theorem mergeLinuxGPUInfo_empty_witness:
  "mergeLinuxGPUInfo [radeon_seen] [] = [radeon_seen]"
  using mergeLinuxGPUInfo_empty [of "[radeon_seen]"] by simp

section \<open>Memory formatting\<close>

lemma re_many_greedy_plus:
  "re_many True cls (Suc 0) Some (s, caps) =
     (if takeWhile cls s = [] then None else Some (drop (length (takeWhile cls s)) s, caps))"
proof (cases "takeWhile cls s = []")
  case True
  then show ?thesis by (simp add: re_many_def)
next
  case False
  then have "Suc 0 \<le> length (takeWhile cls s)"
    by (cases "takeWhile cls s") simp_all
  then have "rev [Suc 0 ..< Suc (length (takeWhile cls s))] =
             length (takeWhile cls s) # rev [Suc 0 ..< length (takeWhile cls s)]"
    by simp
  with False show ?thesis by (simp add: re_many_def Let_def)
qed

lemma take_length_takeWhile: "take (length (takeWhile P xs)) xs = takeWhile P xs"
  by (induction xs) simp_all

lemma FindString_digits_re: "FindString digits_re s = first_digit_run s"
proof -
  have "(case re_find_from digits_re s of None \<Rightarrow> [] | Some (m, rest) \<Rightarrow> (case m of [] \<Rightarrow> [] | w # groups \<Rightarrow> w))
        = first_digit_run s"
  proof (induction s)
    case Nil
    then show ?case
      by (simp add: digits_re_def re_many_greedy_plus first_digit_run_def)
  next
    case (Cons c cs)
    show ?case
    proof (cases "is_digit c")
      case True
      have "Suc (length cs) - (length cs - length (takeWhile is_digit cs))
            = Suc (length (takeWhile is_digit cs))"
        using length_takeWhile_le [of is_digit cs] by arith
      with True show ?thesis
        using take_length_takeWhile [of is_digit cs]
        by (simp add: digits_re_def re_many_greedy_plus first_digit_run_def)
    next
      case False
      with Cons.IH show ?thesis
        by (simp add: digits_re_def re_many_greedy_plus first_digit_run_def)
    qed
  qed
  then show ?thesis
    by (simp add: FindString_def FindStringSubmatch_def split: option.splits prod.splits)
qed

lemma first_digit_run_digits: "list_all is_digit (first_digit_run s)"
  by (simp add: first_digit_run_def list_all_iff) (meson set_takeWhileD)

lemma ParseInt_digits:
  assumes "r \<noteq> []" "list_all is_digit r"
  shows "strconv_ParseInt r =
           (if decimal_value r \<le> 2 ^ 63 - 1 then Some (decimal_value r) else None)"
proof -
  from assms obtain c cs where r: "r = c # cs" and c: "is_digit c"
    by (cases r) auto
  from c have "c \<noteq> CHR ''-''" "c \<noteq> CHR ''+''"
    by (auto simp: is_digit_def)
  with r assms show ?thesis
    by (simp add: strconv_ParseInt_def parse_digits_def)
qed

lemma round_half_even_near:
  assumes "0 < den"
  shows "\<bar>2 * (num - round_half_even num den * den)\<bar> \<le> den"
proof -
  define q r where "q = num div den" and "r = num mod den"
  have r: "0 \<le> r" "r < den"
    using assms by (simp_all add: r_def)
  have down: "num - q * den = r"
    by (simp add: q_def r_def minus_div_mult_eq_mod)
  then have up: "num - (q + 1) * den = r - den"
    by (simp add: algebra_simps)
  show ?thesis
  proof (cases "den < 2 * r \<or> (2 * r = den \<and> odd q)")
    case True
    then have "round_half_even num den = q + 1"
      by (simp add: round_half_even_def Let_def q_def r_def)
    with True r up show ?thesis by auto
  next
    case False
    then have "round_half_even num den = q"
      by (simp add: round_half_even_def Let_def q_def r_def)
    with False r down show ?thesis by auto
  qed
qed

lemma round_half_even_nonneg: "0 < den \<Longrightarrow> 0 \<le> num \<Longrightarrow> 0 \<le> round_half_even num den"
  by (simp add: round_half_even_def Let_def pos_imp_zdiv_nonneg_iff)

lemma bit_length_le: "n < 2 ^ k \<Longrightarrow> bit_length n \<le> k"
proof (induction n arbitrary: k rule: bit_length.induct)
  case (1 n)
  show ?case
  proof (cases "n \<le> 0")
    case True
    then show ?thesis by (simp add: bit_length.simps)
  next
    case False
    with "1.prems" obtain j where k: "k = Suc j"
      by (cases k) auto
    with "1.prems" have "n div 2 < 2 ^ j" by simp
    with "1.IH" False have "bit_length (n div 2) \<le> j" by simp
    with False k show ?thesis by (simp add: bit_length.simps [of n])
  qed
qed

lemma float64_of_int_near:
  assumes "0 \<le> n" "n < 2 ^ 63"
  shows "\<bar>float64_of_int n - n\<bar> \<le> 512" "n < 2 ^ 53 \<Longrightarrow> float64_of_int n = n"
proof -
  show "float64_of_int n = n" if "n < 2 ^ 53"
    using bit_length_le [OF that] by (simp add: float64_of_int_def)
  show "\<bar>float64_of_int n - n\<bar> \<le> 512"
  proof (cases "bit_length n \<le> 53")
    case True
    then show ?thesis by (simp add: float64_of_int_def)
  next
    case False
    define e where "e = bit_length n - 53"
    have "bit_length n \<le> 63" using assms(2) by (rule bit_length_le)
    with False have e: "e \<le> 10" by (simp add: e_def)
    have "(2::int) ^ e \<le> 2 ^ 10"
      using e by (intro power_increasing) simp_all
    then have u: "(2::int) ^ e \<le> 1024" by simp
    have "\<bar>2 * (n - round_half_even n (2 ^ e) * 2 ^ e)\<bar> \<le> 2 ^ e"
      by (rule round_half_even_near) simp
    with u have "\<bar>n - round_half_even n (2 ^ e) * 2 ^ e\<bar> \<le> 512" by arith
    with False show ?thesis
      by (simp add: float64_of_int_def Let_def e_def abs_minus_commute)
  qed
qed

lemma show_dec_digit: "0 \<le> d \<Longrightarrow> d < 10 \<Longrightarrow> length (show_dec d) = 1"
  by (simp add: show_dec.simps)

lemma fmt_f_1:
  assumes "0 < den" "0 \<le> num"
  shows "fmt_f (Suc 0) num den =
           show_dec (round_half_even (num * 10) den div 10) @ ''.'' @
           show_dec (round_half_even (num * 10) den mod 10)"
proof -
  have "length (show_dec (round_half_even (num * 10) den mod 10)) = 1"
    by (rule show_dec_digit) simp_all
  then show ?thesis by (simp add: fmt_f_def Let_def)
qed

lemma fmt_f_0: "fmt_f 0 num den = show_dec (round_half_even num den)"
  by (simp add: fmt_f_def)

lemma formatMemory_cases:
  "formatMemory memStr =
     (if first_digit_run memStr = [] \<or> 2 ^ 63 \<le> byte_count memStr \<or> byte_count memStr < 2 ^ 20
      then memStr
      else if byte_count memStr < 2 ^ 30
      then fmt_f 0 (float64_of_int (byte_count memStr)) (2 ^ 20) @ '' MB''
      else fmt_f 1 (float64_of_int (byte_count memStr)) (2 ^ 30) @ '' GB'')"
proof (cases "first_digit_run memStr = []")
  case True
  then show ?thesis by (simp add: formatMemory_def FindString_digits_re)
next
  case False
  then have "strconv_ParseInt (first_digit_run memStr) =
               (if byte_count memStr \<le> 2 ^ 63 - 1 then Some (byte_count memStr) else None)"
    unfolding byte_count_def by (intro ParseInt_digits first_digit_run_digits)
  with False show ?thesis
    by (simp add: formatMemory_def FindString_digits_re)
qed

text \<open>
  C7: \<open>formatMemory\<close> reads the first run of digits of its argument as a byte count. A
  count of at least 1 GiB is rendered as the number of GiB with one decimal, followed by
  \<open>GB\<close>: the printed value is the count in GiB rounded to a tenth (through the nearest
  \<open>float64\<close> for counts that need more than 53 bits). A count of at least 1 MiB and
  below 1 GiB is rendered as the nearest whole number of MiB, followed by \<open>MB\<close>. A
  count below 1 MiB, an argument without digits and a count beyond the 64-bit range give
  back the argument unchanged. So \<open>1073741824\<close> gives \<open>1.0 GB\<close>, \<open>2097152\<close> gives
  \<open>2 MB\<close> and \<open>512\<close> gives \<open>512\<close>.
\<close>

theorem formatMemory_rendering:
  "(first_digit_run memStr = [] \<longrightarrow> formatMemory memStr = memStr)
   \<and> (first_digit_run memStr \<noteq> [] \<and> 2 ^ 63 \<le> byte_count memStr \<longrightarrow> formatMemory memStr = memStr)
   \<and> (first_digit_run memStr \<noteq> [] \<and> byte_count memStr < 2 ^ 20 \<longrightarrow> formatMemory memStr = memStr)
   \<and> (first_digit_run memStr \<noteq> [] \<and> 2 ^ 20 \<le> byte_count memStr \<and> byte_count memStr < 2 ^ 30 \<longrightarrow>
        (\<exists>t. 0 \<le> t \<and> formatMemory memStr = show_dec t @ '' MB''
             \<and> \<bar>2 * (byte_count memStr - t * 2 ^ 20)\<bar> \<le> 2 ^ 20))
   \<and> (first_digit_run memStr \<noteq> [] \<and> 2 ^ 30 \<le> byte_count memStr \<and> byte_count memStr < 2 ^ 63 \<longrightarrow>
        (\<exists>t. 0 \<le> t
             \<and> formatMemory memStr = show_dec (t div 10) @ ''.'' @ show_dec (t mod 10) @ '' GB''
             \<and> \<bar>10 * byte_count memStr - t * 2 ^ 30\<bar> \<le> 2 ^ 29 + 5120
             \<and> (byte_count memStr < 2 ^ 53 \<longrightarrow> \<bar>10 * byte_count memStr - t * 2 ^ 30\<bar> \<le> 2 ^ 29)))
   \<and> formatMemory ''1073741824'' = ''1.0 GB''
   \<and> formatMemory ''2097152'' = ''2 MB''
   \<and> formatMemory ''512'' = ''512''"
proof (intro conjI impI)
  assume "first_digit_run memStr = []"
  then show "formatMemory memStr = memStr"
    by (simp add: formatMemory_cases)
next
  assume "first_digit_run memStr \<noteq> [] \<and> 2 ^ 63 \<le> byte_count memStr"
  then show "formatMemory memStr = memStr"
    by (simp add: formatMemory_cases)
next
  assume "first_digit_run memStr \<noteq> [] \<and> byte_count memStr < 2 ^ 20"
  then show "formatMemory memStr = memStr"
    by (simp add: formatMemory_cases)
next
  assume a: "first_digit_run memStr \<noteq> [] \<and> 2 ^ 20 \<le> byte_count memStr \<and> byte_count memStr < 2 ^ 30"
  define v where "v = byte_count memStr"
  define t where "t = round_half_even v (2 ^ 20)"
  from a have v: "2 ^ 20 \<le> v" "v < 2 ^ 30" "first_digit_run memStr \<noteq> []"
    by (simp_all add: v_def)
  then have "v < 2 ^ 53" by simp
  with v have f: "float64_of_int v = v"
    by (intro float64_of_int_near) simp_all
  have "formatMemory memStr = show_dec t @ '' MB''"
    using v f by (simp add: formatMemory_cases fmt_f_0 t_def flip: v_def)
  moreover have "0 \<le> t"
    unfolding t_def using v by (intro round_half_even_nonneg) simp_all
  moreover have "\<bar>2 * (v - t * 2 ^ 20)\<bar> \<le> 2 ^ 20"
    unfolding t_def by (rule round_half_even_near) simp
  ultimately show "\<exists>t. 0 \<le> t \<and> formatMemory memStr = show_dec t @ '' MB''
             \<and> \<bar>2 * (byte_count memStr - t * 2 ^ 20)\<bar> \<le> 2 ^ 20"
    unfolding v_def by blast
next
  assume a: "first_digit_run memStr \<noteq> [] \<and> 2 ^ 30 \<le> byte_count memStr \<and> byte_count memStr < 2 ^ 63"
  define v where "v = byte_count memStr"
  define f where "f = float64_of_int v"
  define t where "t = round_half_even (f * 10) (2 ^ 30)"
  from a have v: "2 ^ 30 \<le> v" "v < 2 ^ 63" "first_digit_run memStr \<noteq> []"
    by (simp_all add: v_def)
  have near: "\<bar>f - v\<bar> \<le> 512"
    unfolding f_def using v by (intro float64_of_int_near) simp_all
  with v have fpos: "0 \<le> f" by simp
  have "formatMemory memStr = show_dec (t div 10) @ ''.'' @ show_dec (t mod 10) @ '' GB''"
    using v fpos by (simp add: formatMemory_cases fmt_f_1 t_def f_def flip: v_def)
  moreover have "0 \<le> t"
    unfolding t_def using fpos by (intro round_half_even_nonneg) simp_all
  moreover have r: "\<bar>2 * (f * 10 - t * 2 ^ 30)\<bar> \<le> 2 ^ 30"
    unfolding t_def by (rule round_half_even_near) simp
  from r near have "\<bar>10 * v - t * 2 ^ 30\<bar> \<le> 2 ^ 29 + 5120"
    by simp
  moreover have "\<bar>10 * v - t * 2 ^ 30\<bar> \<le> 2 ^ 29" if "v < 2 ^ 53"
  proof -
    from that v have "f = v"
      unfolding f_def by (intro float64_of_int_near) simp_all
    with r show ?thesis by simp
  qed
  ultimately show "\<exists>t. 0 \<le> t
             \<and> formatMemory memStr = show_dec (t div 10) @ ''.'' @ show_dec (t mod 10) @ '' GB''
             \<and> \<bar>10 * byte_count memStr - t * 2 ^ 30\<bar> \<le> 2 ^ 29 + 5120
             \<and> (byte_count memStr < 2 ^ 53 \<longrightarrow> \<bar>10 * byte_count memStr - t * 2 ^ 30\<bar> \<le> 2 ^ 29)"
    unfolding v_def by blast
next
  show "formatMemory ''1073741824'' = ''1.0 GB''" by code_simp
next
  show "formatMemory ''2097152'' = ''2 MB''" by code_simp
next
  show "formatMemory ''512'' = ''512''" by code_simp
qed

theorem formatMemory_rendering_witness:
  "(first_digit_run ''n/a'' = [] \<and> formatMemory ''n/a'' = ''n/a'')
   \<and> (first_digit_run ''99999999999999999999'' \<noteq> [] \<and> 2 ^ 63 \<le> byte_count ''99999999999999999999''
        \<and> formatMemory ''99999999999999999999'' = ''99999999999999999999'')
   \<and> (first_digit_run ''4096 bytes'' \<noteq> [] \<and> byte_count ''4096 bytes'' < 2 ^ 20
        \<and> formatMemory ''4096 bytes'' = ''4096 bytes'')
   \<and> (first_digit_run ''268435456'' \<noteq> [] \<and> 2 ^ 20 \<le> byte_count ''268435456''
        \<and> byte_count ''268435456'' < 2 ^ 30
        \<and> (\<exists>t. 0 \<le> t \<and> formatMemory ''268435456'' = show_dec t @ '' MB''
                \<and> \<bar>2 * (byte_count ''268435456'' - t * 2 ^ 20)\<bar> \<le> 2 ^ 20))
   \<and> (first_digit_run ''1610612736'' \<noteq> [] \<and> 2 ^ 30 \<le> byte_count ''1610612736''
        \<and> byte_count ''1610612736'' < 2 ^ 63
        \<and> (\<exists>t. 0 \<le> t
                \<and> formatMemory ''1610612736'' = show_dec (t div 10) @ ''.'' @ show_dec (t mod 10) @ '' GB''
                \<and> \<bar>10 * byte_count ''1610612736'' - t * 2 ^ 30\<bar> \<le> 2 ^ 29 + 5120
                \<and> (byte_count ''1610612736'' < 2 ^ 53
                     \<longrightarrow> \<bar>10 * byte_count ''1610612736'' - t * 2 ^ 30\<bar> \<le> 2 ^ 29)))"
proof (intro conjI)
  show a: "first_digit_run ''n/a'' = []" by code_simp
  show "formatMemory ''n/a'' = ''n/a''"
    using formatMemory_rendering [of "''n/a''", THEN conjunct1] a by blast
next
  show b: "first_digit_run ''99999999999999999999'' \<noteq> []" by code_simp
  show c: "2 ^ 63 \<le> byte_count ''99999999999999999999''" by code_simp
  show "formatMemory ''99999999999999999999'' = ''99999999999999999999''"
    using formatMemory_rendering [of "''99999999999999999999''", THEN conjunct2, THEN conjunct1] b c
    by blast
next
  show b: "first_digit_run ''4096 bytes'' \<noteq> []" by code_simp
  show c: "byte_count ''4096 bytes'' < 2 ^ 20" by code_simp
  show "formatMemory ''4096 bytes'' = ''4096 bytes''"
    using formatMemory_rendering [of "''4096 bytes''", THEN conjunct2, THEN conjunct2, THEN conjunct1] b c
    by blast
next
  show b: "first_digit_run ''268435456'' \<noteq> []" by code_simp
  show c: "2 ^ 20 \<le> byte_count ''268435456''" by code_simp
  show d: "byte_count ''268435456'' < 2 ^ 30" by code_simp
  show "\<exists>t. 0 \<le> t \<and> formatMemory ''268435456'' = show_dec t @ '' MB''
                \<and> \<bar>2 * (byte_count ''268435456'' - t * 2 ^ 20)\<bar> \<le> 2 ^ 20"
    using formatMemory_rendering [of "''268435456''", THEN conjunct2, THEN conjunct2, THEN conjunct2,
        THEN conjunct1] b c d
    by blast
next
  show b: "first_digit_run ''1610612736'' \<noteq> []" by code_simp
  show c: "2 ^ 30 \<le> byte_count ''1610612736''" by code_simp
  show d: "byte_count ''1610612736'' < 2 ^ 63" by code_simp
  show "\<exists>t. 0 \<le> t
                \<and> formatMemory ''1610612736'' = show_dec (t div 10) @ ''.'' @ show_dec (t mod 10) @ '' GB''
                \<and> \<bar>10 * byte_count ''1610612736'' - t * 2 ^ 30\<bar> \<le> 2 ^ 29 + 5120
                \<and> (byte_count ''1610612736'' < 2 ^ 53
                     \<longrightarrow> \<bar>10 * byte_count ''1610612736'' - t * 2 ^ 30\<bar> \<le> 2 ^ 29)"
    using formatMemory_rendering [of "''1610612736''", THEN conjunct2, THEN conjunct2, THEN conjunct2,
        THEN conjunct2, THEN conjunct1] b c d
    by blast
qed

section \<open>Records of the parsers\<close>

lemma foldl_accumulate:
  assumes "\<And>acc x. f acc x = acc @ f [] x"
  shows "foldl f acc xs = acc @ concat (map (f []) xs)"
proof (induction xs arbitrary: acc)
  case Nil
  then show ?case by simp
next
  case (Cons x xs)
  have "foldl f (f acc x) xs = f acc x @ concat (map (f []) xs)"
    by (rule Cons.IH)
  then show ?case
    by (simp add: assms [of acc x])
qed

lemma foldl_accumulate_all:
  assumes "\<And>acc x. f acc x = acc @ f [] x"
    and "\<And>x g. g \<in> set (f [] x) \<Longrightarrow> P g"
  shows "\<forall>g \<in> set (foldl f [] xs). P g"
  using assms(2) by (auto simp: foldl_accumulate [of f, OF assms(1)])



lemma json_block_acc: "json_block acc block = acc @ json_block [] block"
  by (simp add: json_block_def Let_def)

lemma windows_block_acc: "windows_block acc block = acc @ windows_block [] block"
  by (simp add: windows_block_def Let_def)

lemma lspci_match_acc: "lspci_match out acc m = acc @ lspci_match out [] m"
  by (simp add: lspci_match_def Let_def split: list.splits)

lemma lshw_block_acc: "lshw_block acc block = acc @ lshw_block [] block"
  by (simp add: lshw_block_def Let_def)

lemma mac_block_acc: "mac_block acc block = acc @ mac_block [] block"
  by (simp add: mac_block_def Let_def)

lemma glx_line_acc: "glx_line out acc line = acc @ glx_line out [] line"
  by (simp add: glx_line_def Let_def split: list.splits)

lemma zero_fields [simp]:
  "Vendor GPUInfo_zero = []" "Model GPUInfo_zero = []" "Memory GPUInfo_zero = []"
  "DriverVersion GPUInfo_zero = []" "PCIAddress GPUInfo_zero = []"
  "RawOutput GPUInfo_zero = []" "Error GPUInfo_zero = []"
  by (simp_all add: GPUInfo_zero_def)

lemma sentinel_fields [simp]:
  "Vendor (sentinel msg) = ''unknown''" "Model (sentinel msg) = ''unknown''"
  "Error (sentinel msg) = msg"
  by (simp_all add: sentinel_def)

lemma backfill_fields [simp]:
  "Vendor (backfill e n) = Vendor e" "Model (backfill e n) = Model e"
  "Error (backfill e n) = Error e" "RawOutput (backfill e n) = RawOutput e"
  by (simp_all add: backfill_def Let_def)

lemma windows_line_Error: "Error (windows_line gpu line) = Error gpu"
  by (simp add: windows_line_def Let_def split: list.splits)

lemma lshw_line_Error: "Error (lshw_line gpu line) = Error gpu"
  by (simp add: lshw_line_def Let_def)

lemma mac_line_Error: "Error (mac_line gpu line) = Error gpu"
  by (simp add: mac_line_def Let_def split: list.splits)

lemma windows_fold_Error: "Error (foldl windows_line gpu lines) = Error gpu"
  by (induction lines arbitrary: gpu) (simp_all add: windows_line_Error)

lemma lshw_fold_Error: "Error (foldl lshw_line gpu lines) = Error gpu"
  by (induction lines arbitrary: gpu) (simp_all add: lshw_line_Error)

lemma mac_fold_Error: "Error (foldl mac_line gpu lines) = Error gpu"
  by (induction lines arbitrary: gpu) (simp_all add: mac_line_Error)

lemma json_block_record:
  "g \<in> set (json_block [] block) \<Longrightarrow> classified g \<and> Model g \<noteq> [] \<and> \<not> isGenericGPU (Model g)"
  by (auto simp: json_block_def Let_def classified_def split: list.splits if_splits)

lemma windows_block_record:
  "g \<in> set (windows_block [] block) \<Longrightarrow> classified g \<and> Model g \<noteq> [] \<and> \<not> isGenericGPU (Model g)"
  by (auto simp: windows_block_def Let_def classified_def windows_fold_Error split: if_splits)

lemma lspci_match_record:
  "g \<in> set (lspci_match out [] m) \<Longrightarrow> classified g \<and> \<not> isGenericGPU (Model g)"
  by (auto simp: lspci_match_def Let_def classified_def split: list.splits if_splits)

lemma glx_line_record:
  "g \<in> set (glx_line out [] line) \<Longrightarrow> classified g \<and> \<not> isGenericGPU (Model g)"
  by (cases "strings_Contains line ''OpenGL renderer string:''")
     (auto simp: glx_line_def Let_def classified_def split: list.splits if_splits)

lemma mac_block_record:
  "g \<in> set (mac_block [] block) \<Longrightarrow> classified g \<and> Model g \<noteq> []"
  by (auto simp: mac_block_def Let_def classified_def mac_fold_Error split: if_splits)

lemma lshw_block_record:
  "g \<in> set (lshw_block [] block) \<Longrightarrow> Error g = [] \<and> Model g \<noteq> [] \<and> \<not> isGenericGPU (Model g)"
  by (auto simp: lshw_block_def Let_def lshw_fold_Error split: if_splits)

lemma parseWindowsJSONOutput_records:
  "\<forall>g \<in> set (parseWindowsJSONOutput out). classified g \<and> Model g \<noteq> [] \<and> \<not> isGenericGPU (Model g)"
  unfolding parseWindowsJSONOutput_def
  by (rule foldl_accumulate_all [OF json_block_acc]) (rule json_block_record)

lemma windows_blocks_records:
  "\<forall>g \<in> set (foldl windows_block [] blocks). classified g \<and> Model g \<noteq> [] \<and> \<not> isGenericGPU (Model g)"
  by (rule foldl_accumulate_all [OF windows_block_acc]) (rule windows_block_record)

lemma parseWindowsGPUOutput_records:
  "\<forall>g \<in> set (parseWindowsGPUOutput out). classified g \<and> Model g \<noteq> [] \<and> \<not> isGenericGPU (Model g)"
  unfolding parseWindowsGPUOutput_def
  using parseWindowsJSONOutput_records [of out] windows_blocks_records [of "splitIntoBlocks out"]
  by simp

lemma parseLinuxLspciOutput_records:
  "\<forall>g \<in> set (parseLinuxLspciOutput out). classified g \<and> \<not> isGenericGPU (Model g)"
  unfolding parseLinuxLspciOutput_def
  by (rule foldl_accumulate_all [OF lspci_match_acc]) (rule lspci_match_record)

lemma parseLinuxGLXOutput_records:
  "\<forall>g \<in> set (parseLinuxGLXOutput out). classified g \<and> \<not> isGenericGPU (Model g)"
  unfolding parseLinuxGLXOutput_def
  by (rule foldl_accumulate_all [OF glx_line_acc]) (rule glx_line_record)

lemma parseMacGPUOutput_records:
  "\<forall>g \<in> set (parseMacGPUOutput out). classified g \<and> Model g \<noteq> []"
  unfolding parseMacGPUOutput_def
  by (rule foldl_accumulate_all [OF mac_block_acc]) (rule mac_block_record)

lemma parseLinuxLshwOutput_records:
  "\<forall>g \<in> set (parseLinuxLshwOutput out). Error g = [] \<and> Model g \<noteq> [] \<and> \<not> isGenericGPU (Model g)"
  unfolding parseLinuxLshwOutput_def
  by (rule foldl_accumulate_all [OF lshw_block_acc]) (rule lshw_block_record)

lemma isGenericGPU_contains_pattern: "isGenericGPU model \<longleftrightarrow> contains_pattern genericTerms model"
  by (simp add: isGenericGPU_def matches_any_contains_pattern)

text \<open>
  Five of the six parsers drop a candidate whose model contains a block-listed term;
  the records of the Windows parsers have a model, too.
\<close>

lemma generic_filter_five_parsers:
  "\<forall>g \<in> set (parseWindowsGPUOutput out). \<not> contains_pattern genericTerms (Model g)"
  "\<forall>g \<in> set (parseWindowsJSONOutput out). \<not> contains_pattern genericTerms (Model g)"
  "\<forall>g \<in> set (parseLinuxLspciOutput out). \<not> contains_pattern genericTerms (Model g)"
  "\<forall>g \<in> set (parseLinuxLshwOutput out). \<not> contains_pattern genericTerms (Model g)"
  "\<forall>g \<in> set (parseLinuxGLXOutput out). \<not> contains_pattern genericTerms (Model g)"
  using parseWindowsGPUOutput_records [of out] parseWindowsJSONOutput_records [of out]
    parseLinuxLspciOutput_records [of out] parseLinuxLshwOutput_records [of out]
    parseLinuxGLXOutput_records [of out]
  by (simp_all add: isGenericGPU_contains_pattern)

text \<open>
  So the basic display adapter of Windows is in the output of no Windows parser, and
  the VMware adapter is in the output of none of the five.
\<close>

lemma windows_parsers_drop_basic_adapter:
  "\<forall>g \<in> set (parseWindowsGPUOutput out). Model g \<noteq> ''Microsoft Basic Display Adapter''"
  "\<forall>g \<in> set (parseWindowsJSONOutput out). Model g \<noteq> ''Microsoft Basic Display Adapter''"
proof -
  have "isGenericGPU ''Microsoft Basic Display Adapter''"
    by code_simp
  then show
    "\<forall>g \<in> set (parseWindowsGPUOutput out). Model g \<noteq> ''Microsoft Basic Display Adapter''"
    "\<forall>g \<in> set (parseWindowsJSONOutput out). Model g \<noteq> ''Microsoft Basic Display Adapter''"
    using parseWindowsGPUOutput_records [of out] parseWindowsJSONOutput_records [of out]
    by auto
qed

lemma five_parsers_drop_vmware_adapter:
  "\<forall>g \<in> set (parseWindowsGPUOutput out). Model g \<noteq> ''VMware SVGA II''"
  "\<forall>g \<in> set (parseWindowsJSONOutput out). Model g \<noteq> ''VMware SVGA II''"
  "\<forall>g \<in> set (parseLinuxLspciOutput out). Model g \<noteq> ''VMware SVGA II''"
  "\<forall>g \<in> set (parseLinuxLshwOutput out). Model g \<noteq> ''VMware SVGA II''"
  "\<forall>g \<in> set (parseLinuxGLXOutput out). Model g \<noteq> ''VMware SVGA II''"
proof -
  have "isGenericGPU ''VMware SVGA II''"
    by code_simp
  then show
    "\<forall>g \<in> set (parseWindowsGPUOutput out). Model g \<noteq> ''VMware SVGA II''"
    "\<forall>g \<in> set (parseWindowsJSONOutput out). Model g \<noteq> ''VMware SVGA II''"
    "\<forall>g \<in> set (parseLinuxLspciOutput out). Model g \<noteq> ''VMware SVGA II''"
    "\<forall>g \<in> set (parseLinuxLshwOutput out). Model g \<noteq> ''VMware SVGA II''"
    "\<forall>g \<in> set (parseLinuxGLXOutput out). Model g \<noteq> ''VMware SVGA II''"
    using parseWindowsGPUOutput_records [of out] parseWindowsJSONOutput_records [of out]
      parseLinuxLspciOutput_records [of out] parseLinuxLshwOutput_records [of out]
      parseLinuxGLXOutput_records [of out]
    by auto
qed

section \<open>Records through the merge\<close>

lemma merge_scan_all:
  assumes "\<And>e. Q e \<Longrightarrow> Q (backfill e n)" and "\<forall>e \<in> set xs. Q e"
  shows "\<forall>e \<in> set (fst (merge_scan xs n)). Q e"
  using assms(2) by (induction xs) (auto simp: assms(1) split: prod.splits)

lemma merge_one_all:
  assumes "\<And>e. Q e \<Longrightarrow> Q (backfill e n)" and "\<forall>e \<in> set xs. Q e" and "Q n"
  shows "\<forall>e \<in> set (merge_one xs n). Q e"
proof (cases "merge_scan xs n")
  case (Pair ys found)
  with merge_scan_all [of Q n xs, OF assms(1,2)] have "\<forall>e \<in> set ys. Q e"
    by simp
  with Pair assms(3) show ?thesis
    by (simp add: merge_one_def)
qed

lemma mergeLinuxGPUInfo_all:
  assumes "\<And>e n. Q e \<Longrightarrow> Q (backfill e n)" and "\<forall>e \<in> set xs. Q e" and "\<forall>n \<in> set ns. Q n"
  shows "\<forall>e \<in> set (mergeLinuxGPUInfo xs ns). Q e"
  using assms(2,3) unfolding mergeLinuxGPUInfo_def
proof (induction ns arbitrary: xs)
  case Nil
  then show ?case by simp
next
  case (Cons n ns)
  have "\<forall>e \<in> set (merge_one xs n). Q e"
    using Cons.prems by (intro merge_one_all assms(1)) simp_all
  with Cons show ?case by simp
qed

section \<open>The platform branches\<close>

lemma run_and_parse_yield:
  "run_and_parse d h name args tr =
     (case exec_Output h (timeout d) name args of
        Inl err \<Rightarrow> (Inl err, tr @ [Exec name args])
      | Inr out \<Rightarrow> (Inr (strategy_yield d h name args), tr @ [Exec name args]))"
  by (simp add: run_and_parse_def runCommandWithTimeout_def strategy_yield_def split: sum.splits)

lemma try_methods_Nil: "try_methods [] tr = (None, tr)"
  by simp

lemma try_method_step:
  "try_methods ((desc, run_and_parse d h name args) # rest) tr =
     (if strategy_yield d h name args \<noteq> []
      then (Some (strategy_yield d h name args), tr @ [Exec name args])
      else try_methods rest (tr @ [Exec name args]))"
  by (simp add: run_and_parse_def runCommandWithTimeout_def strategy_yield_def split: sum.splits)

lemma detectWindowsGPUs_unfold:
  "detectWindowsGPUs d h tr =
     (if strategy_yield d h ''powershell'' cim_args \<noteq> [] then
        ((strategy_yield d h ''powershell'' cim_args, None), tr @ [Exec ''powershell'' cim_args])
      else if strategy_yield d h ''powershell'' wmi_args \<noteq> [] then
        ((strategy_yield d h ''powershell'' wmi_args, None),
         tr @ [Exec ''powershell'' cim_args, Exec ''powershell'' wmi_args])
      else if strategy_yield d h ''wmic'' wmic_args \<noteq> [] then
        ((strategy_yield d h ''wmic'' wmic_args, None),
         tr @ [Exec ''powershell'' cim_args, Exec ''powershell'' wmi_args, Exec ''wmic'' wmic_args])
      else
        (([sentinel windows_msg], None),
         tr @ [Exec ''powershell'' cim_args, Exec ''powershell'' wmi_args, Exec ''wmic'' wmic_args]))"
  unfolding detectWindowsGPUs_def detectWindowsGPUsPowerShellCIM_def
    detectWindowsGPUsPowerShellWMI_def detectWindowsGPUsWMIC_def Let_def
    cim_args_def [symmetric] wmi_args_def [symmetric] windows_msg_def [symmetric]
  by (simp add: try_method_step del: try_methods.simps) simp_all

lemma strategy_yield_records:
  "\<forall>g \<in> set (strategy_yield d h name args). classified g \<and> Model g \<noteq> [] \<and> \<not> isGenericGPU (Model g)"
  by (cases "exec_Output h (timeout d) name args")
     (simp_all add: strategy_yield_def parseWindowsGPUOutput_records)

lemma strategy_yield_not_sentinel: "msg \<noteq> [] \<Longrightarrow> strategy_yield d h name args \<noteq> [sentinel msg]"
proof
  assume "msg \<noteq> []" and "strategy_yield d h name args = [sentinel msg]"
  with strategy_yield_records [of d h name args] have "classified (sentinel msg)"
    by simp
  with \<open>msg \<noteq> []\<close> show False
    by (simp add: classified_def)
qed

lemma failed_Inl: "failed r \<Longrightarrow> \<exists>err. r = Inl err"
  by (cases r) (simp_all add: failed_def)

lemma strategy_yield_failed: "failed (exec_Output h (timeout d) name args) \<Longrightarrow> strategy_yield d h name args = []"
  by (auto simp: strategy_yield_def dest: failed_Inl)

lemma detectLinuxGPUs_unfold:
  assumes a: "tryLinuxLspci d h tr = (l1, t1)"
    and b: "tryLinuxLshw d h t1 = (l2, t2)"
    and c: "tryLinuxNvidiaProc h t2 = (n3, t3)"
    and e: "tryLinuxGLX d h t3 = (l4, t4)"
  shows "detectLinuxGPUs d h tr =
     (let g1 = (if length l1 > 0 then [] @ l1 else []);
          g2 = (if length l2 > 0 then mergeLinuxGPUInfo g1 l2 else g1);
          g3 = (if Vendor n3 \<noteq> ''unknown'' then mergeLinuxGPUInfo g2 [n3] else g2);
          g4 = (if length l4 > 0 then mergeLinuxGPUInfo g3 l4 else g3)
      in if length g4 = 0 then (([sentinel linux_msg], None), t4) else ((g4, None), t4))"
  unfolding detectLinuxGPUs_def linux_msg_def
  apply (simp only: Let_def)
  apply (simp only: a prod.case)
  apply (simp only: b prod.case)
  apply (simp only: c prod.case)
  apply (simp only: e prod.case)
  done

lemma detectLinuxGPUs_records:
  assumes bf: "\<And>e n. Q e \<Longrightarrow> Q (backfill e n)"
    and lspci: "\<And>out. \<forall>g \<in> set (parseLinuxLspciOutput out). Q g"
    and lshw: "\<And>out. exec_Output h (timeout d) ''lshw'' [''-C'', ''display''] = Inr out
                 \<Longrightarrow> \<forall>g \<in> set (parseLinuxLshwOutput out). Q g"
    and proc: "\<And>data. Q (GPUInfo_zero\<lparr>Vendor := ''nvidia'', Model := ''NVIDIA GPU'',
                         DriverVersion := extractNvidiaVersionFromProc data,
                         RawOutput := data\<rparr>)"
    and glx: "\<And>out. \<forall>g \<in> set (parseLinuxGLXOutput out). Q g"
  shows "fst (fst (detectLinuxGPUs d h tr)) = [sentinel linux_msg]
         \<or> (fst (fst (detectLinuxGPUs d h tr)) \<noteq> []
             \<and> (\<forall>g \<in> set (fst (fst (detectLinuxGPUs d h tr))). Q g))"
proof -
  obtain l1 t1 where a: "tryLinuxLspci d h tr = (l1, t1)"
    by fastforce
  obtain l2 t2 where b: "tryLinuxLshw d h t1 = (l2, t2)"
    by fastforce
  obtain n3 t3 where c: "tryLinuxNvidiaProc h t2 = (n3, t3)"
    by fastforce
  obtain l4 t4 where e: "tryLinuxGLX d h t3 = (l4, t4)"
    by fastforce
  define g1 where "g1 = (if length l1 > 0 then [] @ l1 else [])"
  define g2 where "g2 = (if length l2 > 0 then mergeLinuxGPUInfo g1 l2 else g1)"
  define g3 where "g3 = (if Vendor n3 \<noteq> ''unknown'' then mergeLinuxGPUInfo g2 [n3] else g2)"
  define g4 where "g4 = (if length l4 > 0 then mergeLinuxGPUInfo g3 l4 else g3)"
  note u = detectLinuxGPUs_unfold [OF a b c e, unfolded Let_def,
      folded g1_def, folded g2_def, folded g3_def, folded g4_def]
  have res: "fst (fst (detectLinuxGPUs d h tr)) = (if length g4 = 0 then [sentinel linux_msg] else g4)"
    by (simp add: u)
  have qa: "\<forall>g \<in> set l1. Q g"
    using a lspci by (auto simp: tryLinuxLspci_def runCommandWithTimeout_def split: sum.splits)
  have qb: "\<forall>g \<in> set l2. Q g"
    using b lshw by (auto simp: tryLinuxLshw_def runCommandWithTimeout_def split: sum.splits)
  have qc: "Vendor n3 \<noteq> ''unknown'' \<Longrightarrow> Q n3"
    using c proc by (auto simp: tryLinuxNvidiaProc_def split: sum.splits)
  have qe: "\<forall>g \<in> set l4. Q g"
    using e glx by (auto simp: tryLinuxGLX_def runCommandWithTimeout_def split: sum.splits)
  have q1: "\<forall>g \<in> set g1. Q g"
    using qa by (simp add: g1_def)
  have m2: "\<forall>g \<in> set (mergeLinuxGPUInfo g1 l2). Q g"
    by (rule mergeLinuxGPUInfo_all [of Q, OF bf q1 qb])
  have q2: "\<forall>g \<in> set g2. Q g"
    using q1 m2 by (simp add: g2_def)
  have m3: "\<forall>g \<in> set (mergeLinuxGPUInfo g2 [n3]). Q g" if "Vendor n3 \<noteq> ''unknown''"
  proof (rule mergeLinuxGPUInfo_all [of Q, OF bf q2])
    show "\<forall>n \<in> set [n3]. Q n"
      using qc [OF that] by simp
  qed
  have q3: "\<forall>g \<in> set g3. Q g"
    using q2 m3 by (simp add: g3_def)
  have m4: "\<forall>g \<in> set (mergeLinuxGPUInfo g3 l4). Q g"
    by (rule mergeLinuxGPUInfo_all [of Q, OF bf q3 qe])
  have q4: "\<forall>g \<in> set g4. Q g"
    using q3 m4 by (simp add: g4_def)
  show ?thesis
    using q4 by (simp add: res)
qed

lemma detectLinuxGPUs_error: "snd (fst (detectLinuxGPUs d h tr)) = None"
proof -
  obtain l1 t1 where a: "tryLinuxLspci d h tr = (l1, t1)"
    by fastforce
  obtain l2 t2 where b: "tryLinuxLshw d h t1 = (l2, t2)"
    by fastforce
  obtain n3 t3 where c: "tryLinuxNvidiaProc h t2 = (n3, t3)"
    by fastforce
  obtain l4 t4 where e: "tryLinuxGLX d h t3 = (l4, t4)"
    by fastforce
  show ?thesis
    unfolding detectLinuxGPUs_unfold [OF a b c e] Let_def by (simp only: if_distrib [of fst] if_distrib [of snd] fst_conv snd_conv if_cancel)
qed

lemma detectLinuxGPUs_all_failed:
  assumes "failed (exec_Output h (timeout d) ''lspci'' [''-v'', ''-s'', lspci_selector])"
    and "failed (exec_Output h (timeout d) ''lspci'' [])"
    and "failed (exec_Output h (timeout d) ''lshw'' [''-C'', ''display''])"
    and "failed (os_ReadFile h nvidia_proc_path)"
    and "failed (exec_Output h (timeout d) ''glxinfo'' [])"
  shows "fst (fst (detectLinuxGPUs d h tr)) = [sentinel linux_msg]"
proof -
  obtain t1 where a: "tryLinuxLspci d h tr = ([], t1)"
    using assms(1,2) by (auto simp: tryLinuxLspci_def runCommandWithTimeout_def dest!: failed_Inl)
  obtain t2 where b: "tryLinuxLshw d h t1 = ([], t2)"
    using assms(3) by (auto simp: tryLinuxLshw_def runCommandWithTimeout_def dest!: failed_Inl)
  obtain t3 where c: "tryLinuxNvidiaProc h t2 = (GPUInfo_zero\<lparr>Vendor := ''unknown''\<rparr>, t3)"
    using assms(4) by (auto simp: tryLinuxNvidiaProc_def dest!: failed_Inl)
  obtain t4 where e: "tryLinuxGLX d h t3 = ([], t4)"
    using assms(5) by (auto simp: tryLinuxGLX_def runCommandWithTimeout_def dest!: failed_Inl)
  show ?thesis
    by (simp add: detectLinuxGPUs_unfold [OF a b c e])
qed

lemma detectMacGPUs_unfold:
  "detectMacGPUs d h tr =
     (case exec_Output h (timeout d) ''system_profiler'' [''SPDisplaysDataType''] of
        Inl err \<Rightarrow> (([sentinel (''Failed to run system_profiler: '' @ err)], None),
                    tr @ [Exec ''system_profiler'' [''SPDisplaysDataType'']])
      | Inr out \<Rightarrow> ((parseMacGPUOutput out, None),
                    tr @ [Exec ''system_profiler'' [''SPDisplaysDataType'']]))"
  by (simp add: detectMacGPUs_def runCommandWithTimeout_def split: sum.splits)

lemma DetectGPUs_error: "snd (fst (DetectGPUs d h tr)) = None"
  by (simp add: DetectGPUs_def detectWindowsGPUs_unfold detectLinuxGPUs_error
      detectMacGPUs_unfold split: sum.splits)

lemma DetectGPUs_failure:
  assumes "detection_fails d h"
  shows "\<exists>msg. msg \<noteq> [] \<and> fst (fst (DetectGPUs d h tr)) = [sentinel msg]"
proof -
  consider (w) "GOOS h = ''windows''" | (l) "GOOS h = ''linux''" | (m) "GOOS h = ''darwin''"
    | (o) "GOOS h \<noteq> ''windows''" "GOOS h \<noteq> ''linux''" "GOOS h \<noteq> ''darwin''"
    by blast
  then show ?thesis
  proof cases
    case w
    with assms have "fst (fst (DetectGPUs d h tr)) = [sentinel windows_msg]"
      by (simp add: detection_fails_def DetectGPUs_def detectWindowsGPUs_unfold strategy_yield_failed)
    moreover have "windows_msg \<noteq> []" by (simp add: windows_msg_def)
    ultimately show ?thesis by blast
  next
    case l
    with assms have "fst (fst (DetectGPUs d h tr)) = [sentinel linux_msg]"
      by (simp add: detection_fails_def DetectGPUs_def detectLinuxGPUs_all_failed)
    moreover have "linux_msg \<noteq> []" by (simp add: linux_msg_def)
    ultimately show ?thesis by blast
  next
    case m
    with assms obtain err where
      "exec_Output h (timeout d) ''system_profiler'' [''SPDisplaysDataType''] = Inl err"
      by (auto simp: detection_fails_def dest: failed_Inl)
    with m have "fst (fst (DetectGPUs d h tr)) = [sentinel (''Failed to run system_profiler: '' @ err)]"
      by (simp add: DetectGPUs_def detectMacGPUs_unfold)
    moreover have "''Failed to run system_profiler: '' @ err \<noteq> []"
      by simp
    ultimately show ?thesis by blast
  next
    case o
    then have "fst (fst (DetectGPUs d h tr)) = [sentinel (''Unsupported operating system: '' @ GOOS h)]"
      by (simp add: DetectGPUs_def)
    moreover have "''Unsupported operating system: '' @ GOOS h \<noteq> []"
      by simp
    ultimately show ?thesis by blast
  qed
qed

lemma DetectGPUs_sentinel_or_clean:
  "(\<exists>msg. msg \<noteq> [] \<and> fst (fst (DetectGPUs d h tr)) = [sentinel msg])
   \<or> (\<forall>g \<in> set (fst (fst (DetectGPUs d h tr))). Error g = [])"
proof -
  consider (w) "GOOS h = ''windows''" | (l) "GOOS h = ''linux''" | (m) "GOOS h = ''darwin''"
    | (o) "GOOS h \<noteq> ''windows''" "GOOS h \<noteq> ''linux''" "GOOS h \<noteq> ''darwin''"
    by blast
  then show ?thesis
  proof cases
    case w
    have "windows_msg \<noteq> []" by (simp add: windows_msg_def)
    moreover have "\<forall>g \<in> set (strategy_yield d h name args). Error g = []" for name args
      using strategy_yield_records [of d h name args] by (simp add: classified_def)
    ultimately show ?thesis
      using w by (auto simp: DetectGPUs_def detectWindowsGPUs_unfold)
  next
    case l
    have "fst (fst (detectLinuxGPUs d h tr)) = [sentinel linux_msg]
         \<or> (fst (fst (detectLinuxGPUs d h tr)) \<noteq> []
             \<and> (\<forall>g \<in> set (fst (fst (detectLinuxGPUs d h tr))). Error g = []))"
    proof (rule detectLinuxGPUs_records)
      show "\<forall>g \<in> set (parseLinuxLspciOutput out). Error g = []" for out
        using parseLinuxLspciOutput_records [of out] by (simp add: classified_def)
      show "\<forall>g \<in> set (parseLinuxLshwOutput out). Error g = []" for out
        using parseLinuxLshwOutput_records [of out] by simp
      show "\<forall>g \<in> set (parseLinuxGLXOutput out). Error g = []" for out
        using parseLinuxGLXOutput_records [of out] by (simp add: classified_def)
    qed simp_all
    moreover have "linux_msg \<noteq> []" by (simp add: linux_msg_def)
    ultimately show ?thesis
      using l by (auto simp: DetectGPUs_def)
  next
    case m
    have "\<forall>g \<in> set (parseMacGPUOutput out). Error g = []" for out
      using parseMacGPUOutput_records [of out] by (simp add: classified_def)
    then show ?thesis
      using m by (auto simp: DetectGPUs_def detectMacGPUs_unfold split: sum.splits)
  next
    case o
    then have "fst (fst (DetectGPUs d h tr)) = [sentinel (''Unsupported operating system: '' @ GOOS h)]"
      by (simp add: DetectGPUs_def)
    moreover have "''Unsupported operating system: '' @ GOOS h \<noteq> []"
      by simp
    ultimately show ?thesis by blast
  qed
qed

lemma DetectGPUs_nonempty_off_darwin:
  assumes "GOOS h \<noteq> ''darwin''"
  shows "fst (fst (DetectGPUs d h tr)) \<noteq> []"
proof -
  have "fst (fst (detectLinuxGPUs d h tr)) = [sentinel linux_msg]
         \<or> (fst (fst (detectLinuxGPUs d h tr)) \<noteq> []
             \<and> (\<forall>g \<in> set (fst (fst (detectLinuxGPUs d h tr))). True))"
    by (rule detectLinuxGPUs_records) simp_all
  then have "fst (fst (detectLinuxGPUs d h tr)) \<noteq> []"
    by auto
  with assms show ?thesis
    by (simp add: DetectGPUs_def detectWindowsGPUs_unfold)
qed

section \<open>The vendor field\<close>



lemma strings_ToLower_Nil: "strings_ToLower s = [] \<longleftrightarrow> s = []"
  by (simp add: strings_ToLower_def)












section \<open>Detection as a whole\<close>

text \<open>
  C1: the specification says that \<open>DetectGPUs\<close> returns at least one record on every platform and
  for every probe outcome, a sentinel when nothing was detected, also on macOS when
  \<^verbatim>\<open>system_profiler\<close> runs and its output parses to no record. The Windows and the
  Linux branch put the sentinel in place of an empty result; the macOS branch returns
  what the parser returns. On a Mac whose \<^verbatim>\<open>system_profiler\<close> reports no graphics
  device the result is the empty sequence, with a nil error.
\<close>

theorem DetectGPUs_darwin_empty:
  "fst (DetectGPUs NewGPUDetector headless_mac []) = ([], None)"
  by code_simp




text \<open>
  C3: the specification says that every parser drops a candidate whose model contains a
  block-listed term, so that \<open>VMware SVGA II\<close> appears in the output of no parser. The
  two Windows parsers and the three Linux parsers test \<open>isGenericGPU\<close>; the macOS parser
  tests only that the model is not empty. It returns the VMware adapter of a Mac in a
  virtual machine, and so does \<open>DetectGPUs\<close> there.
\<close>

theorem parseMacGPUOutput_keeps_generic:
  "map Model (parseMacGPUOutput vmware_profile) = [''VMware SVGA II'']
   \<and> map Model (fst (fst (DetectGPUs NewGPUDetector vmware_mac []))) = [''VMware SVGA II'']
   \<and> isGenericGPU ''VMware SVGA II''"
  by code_simp

text \<open>
  C5: on Windows the strategies are tried in the order PowerShell CIM, PowerShell WMI,
  WMIC. The records of the first strategy that succeeds and yields a record are returned,
  and the trace of commands ends with that strategy: no later one is started. The single
  sentinel is returned exactly when each of the three fails or yields no record.
\<close>

theorem detectWindowsGPUs_first_success:
  "detectWindowsGPUs d h tr =
     (if strategy_yield d h ''powershell'' cim_args \<noteq> [] then
        ((strategy_yield d h ''powershell'' cim_args, None), tr @ [Exec ''powershell'' cim_args])
      else if strategy_yield d h ''powershell'' wmi_args \<noteq> [] then
        ((strategy_yield d h ''powershell'' wmi_args, None),
         tr @ [Exec ''powershell'' cim_args, Exec ''powershell'' wmi_args])
      else if strategy_yield d h ''wmic'' wmic_args \<noteq> [] then
        ((strategy_yield d h ''wmic'' wmic_args, None),
         tr @ [Exec ''powershell'' cim_args, Exec ''powershell'' wmi_args, Exec ''wmic'' wmic_args])
      else
        (([sentinel windows_msg], None),
         tr @ [Exec ''powershell'' cim_args, Exec ''powershell'' wmi_args, Exec ''wmic'' wmic_args]))
   \<and> (fst (fst (detectWindowsGPUs d h tr)) = [sentinel windows_msg]
        \<longleftrightarrow> strategy_yield d h ''powershell'' cim_args = []
            \<and> strategy_yield d h ''powershell'' wmi_args = []
            \<and> strategy_yield d h ''wmic'' wmic_args = [])"
proof -
  have "windows_msg \<noteq> []"
    by (simp add: windows_msg_def)
  then have "strategy_yield d h name args \<noteq> [sentinel windows_msg]" for name args
    by (rule strategy_yield_not_sentinel)
  then show ?thesis
    by (simp add: detectWindowsGPUs_unfold)
qed

theorem detectWindowsGPUs_first_success_witness:
  "strategy_yield NewGPUDetector fallback_windows ''powershell'' cim_args = []
   \<and> strategy_yield NewGPUDetector fallback_windows ''powershell'' wmi_args = []
   \<and> strategy_yield NewGPUDetector fallback_windows ''wmic'' wmic_args = [radeon_wmic]
   \<and> detectWindowsGPUs NewGPUDetector fallback_windows [] =
        (([radeon_wmic], None),
         [Exec ''powershell'' cim_args, Exec ''powershell'' wmi_args, Exec ''wmic'' wmic_args])"
proof -
  have a: "strategy_yield NewGPUDetector fallback_windows ''powershell'' cim_args = []"
    by code_simp
  have b: "strategy_yield NewGPUDetector fallback_windows ''powershell'' wmi_args = []"
    by code_simp
  have c: "strategy_yield NewGPUDetector fallback_windows ''wmic'' wmic_args = [radeon_wmic]"
    by code_simp
  from detectWindowsGPUs_first_success [of NewGPUDetector fallback_windows "[]", THEN conjunct1]
  have "detectWindowsGPUs NewGPUDetector fallback_windows [] =
        (([radeon_wmic], None),
         [Exec ''powershell'' cim_args, Exec ''powershell'' wmi_args, Exec ''wmic'' wmic_args])"
    unfolding a b c by simp
  with a b c show ?thesis by blast
qed

text \<open>
  C9: \<open>DetectGPUs\<close> returns a nil error on every platform and for every probe outcome.
  When the platform is not supported or every probe fails, it returns one record, a
  sentinel with vendor and model \<open>unknown\<close> and a non-empty error text; and a record
  with an error text is always such a sentinel and the only record returned.
\<close>

theorem DetectGPUs_failure_as_record:
  "snd (fst (DetectGPUs d h tr)) = None
   \<and> (detection_fails d h \<longrightarrow>
        (\<exists>g. fst (fst (DetectGPUs d h tr)) = [g] \<and> is_sentinel g))
   \<and> (\<forall>g \<in> set (fst (fst (DetectGPUs d h tr))).
        Error g \<noteq> [] \<longrightarrow> is_sentinel g \<and> fst (fst (DetectGPUs d h tr)) = [g])"
proof (intro conjI impI ballI)
  show "snd (fst (DetectGPUs d h tr)) = None"
    by (rule DetectGPUs_error)
next
  assume "detection_fails d h"
  then obtain msg where "msg \<noteq> []" "fst (fst (DetectGPUs d h tr)) = [sentinel msg]"
    using DetectGPUs_failure by blast
  then show "\<exists>g. fst (fst (DetectGPUs d h tr)) = [g] \<and> is_sentinel g"
    by (simp add: is_sentinel_def)
next
  fix g
  assume g: "g \<in> set (fst (fst (DetectGPUs d h tr)))" "Error g \<noteq> []"
  with DetectGPUs_sentinel_or_clean [of d h tr]
  obtain msg where "msg \<noteq> []" "fst (fst (DetectGPUs d h tr)) = [sentinel msg]"
    by blast
  with g show "is_sentinel g" and "fst (fst (DetectGPUs d h tr)) = [g]"
    by (simp_all add: is_sentinel_def)
qed

theorem DetectGPUs_failure_as_record_witness:
  "detection_fails NewGPUDetector bare_linux
   \<and> snd (fst (DetectGPUs NewGPUDetector bare_linux [])) = None
   \<and> (\<exists>g. fst (fst (DetectGPUs NewGPUDetector bare_linux [])) = [g] \<and> is_sentinel g)
   \<and> sentinel linux_msg \<in> set (fst (fst (DetectGPUs NewGPUDetector bare_linux [])))
   \<and> Error (sentinel linux_msg) \<noteq> []
   \<and> is_sentinel (sentinel linux_msg)
   \<and> fst (fst (DetectGPUs NewGPUDetector bare_linux [])) = [sentinel linux_msg]"
proof -
  note t = DetectGPUs_failure_as_record [of NewGPUDetector bare_linux "[]"]
  have f: "detection_fails NewGPUDetector bare_linux"
    by code_simp
  have m: "sentinel linux_msg \<in> set (fst (fst (DetectGPUs NewGPUDetector bare_linux [])))"
    by code_simp
  have e: "Error (sentinel linux_msg) \<noteq> []"
    by code_simp
  from t have 1: "snd (fst (DetectGPUs NewGPUDetector bare_linux [])) = None"
    by (rule conjunct1)
  from t f have 2: "\<exists>g. fst (fst (DetectGPUs NewGPUDetector bare_linux [])) = [g] \<and> is_sentinel g"
    by blast
  from t m e have 3: "is_sentinel (sentinel linux_msg) \<and>
      fst (fst (DetectGPUs NewGPUDetector bare_linux [])) = [sentinel linux_msg]"
    by blast
  from f 1 2 m e 3 show ?thesis by blast
qed

text \<open>
  C10: \<open>DetectGPUVendor\<close> runs \<open>DetectGPUs\<close> on a new detector. When that returns a nil
  error and at least one record, it returns the first record; otherwise it returns a
  sentinel with vendor and model \<open>unknown\<close> and a non-empty error text.
\<close>

theorem DetectGPUVendor_primary:
  "DetectGPUs NewGPUDetector h tr = ((gpus, err), tr') \<Longrightarrow>
     (err = None \<and> gpus \<noteq> [] \<longrightarrow> DetectGPUVendor h tr = (gpus ! 0, tr'))
     \<and> (\<not> (err = None \<and> gpus \<noteq> []) \<longrightarrow>
          is_sentinel (fst (DetectGPUVendor h tr)) \<and> snd (DetectGPUVendor h tr) = tr')"
  by (cases err) (auto simp: DetectGPUVendor_def Let_def is_sentinel_def show_error_def)

theorem DetectGPUVendor_primary_witness:
  "DetectGPUs NewGPUDetector fallback_windows [] =
     (([radeon_wmic], None),
      [Exec ''powershell'' cim_args, Exec ''powershell'' wmi_args, Exec ''wmic'' wmic_args])
   \<and> DetectGPUVendor fallback_windows [] =
     (radeon_wmic,
      [Exec ''powershell'' cim_args, Exec ''powershell'' wmi_args, Exec ''wmic'' wmic_args])
   \<and> DetectGPUs NewGPUDetector headless_mac [] =
     (([], None), [Exec ''system_profiler'' [''SPDisplaysDataType'']])
   \<and> is_sentinel (fst (DetectGPUVendor headless_mac []))
   \<and> snd (DetectGPUVendor headless_mac []) = [Exec ''system_profiler'' [''SPDisplaysDataType'']]"
proof -
  have w: "DetectGPUs NewGPUDetector fallback_windows [] =
     (([radeon_wmic], None),
      [Exec ''powershell'' cim_args, Exec ''powershell'' wmi_args, Exec ''wmic'' wmic_args])"
    by code_simp
  have m: "DetectGPUs NewGPUDetector headless_mac [] =
     (([], None), [Exec ''system_profiler'' [''SPDisplaysDataType'']])"
    by code_simp
  from DetectGPUVendor_primary [OF w] have 1: "DetectGPUVendor fallback_windows [] =
     (radeon_wmic,
      [Exec ''powershell'' cim_args, Exec ''powershell'' wmi_args, Exec ''wmic'' wmic_args])"
    by simp
  from DetectGPUVendor_primary [OF m] have 2: "is_sentinel (fst (DetectGPUVendor headless_mac []))
    \<and> snd (DetectGPUVendor headless_mac []) = [Exec ''system_profiler'' [''SPDisplaysDataType'']]"
    by simp
  from w m 1 2 show ?thesis by blast
qed

end
